theory Spec2Isabelle
  imports Main "HOL-Library.Sublist"
begin

section \<open>Session manager (\<open>MusicAPI.create_session\<close>, \<open>MusicAPI.close_session\<close>)\<close>

text \<open>
  \<open>MusicAPI.session\<close> is either \<open>None\<close> or a reference to an
  \<open>aiohttp.ClientSession\<close> object whose \<open>closed\<close> property changes when the
  object is closed. The model keeps the reference as the number of the object, the set
  of objects that are constructed and not yet closed (\<open>live\<close>), and the count of
  objects constructed so far (\<open>allocated\<close>), which is also the number of the next one.
  Execution is sequential: one call runs to its end before the next starts.
\<close>

record music_api =
  session :: "nat option"
  live :: "nat set"
  allocated :: nat

definition init_api :: music_api where
  "init_api = \<lparr>session = None, live = {}, allocated = 0\<rparr>"

definition session_closed :: "music_api \<Rightarrow> nat \<Rightarrow> bool" where
  "session_closed self i = (i \<notin> live self)"

definition is_open :: "music_api \<Rightarrow> bool" where
  \<comment> \<open>\<open>self.session and not self.session.closed\<close>\<close>
  "is_open self = (case session self of None \<Rightarrow> False | Some i \<Rightarrow> \<not> session_closed self i)"

definition create_session :: "music_api \<Rightarrow> music_api" where
  \<comment> \<open>\<open>if not self.session or self.session.closed: self.session = ClientSession(...)\<close>\<close>
  "create_session self =
     (if \<not> is_open self
      then self\<lparr>session := Some (allocated self),
                live := insert (allocated self) (live self),
                allocated := Suc (allocated self)\<rparr>
      else self)"

definition close_session :: "music_api \<Rightarrow> music_api" where
  \<comment> \<open>\<open>if self.session and not self.session.closed: await self.session.close()\<close>\<close>
  "close_session self =
     (case session self of
        None \<Rightarrow> self
      | Some i \<Rightarrow> if \<not> session_closed self i then self\<lparr>live := live self - {i}\<rparr> else self)"

text \<open>
  A run of the two operations, and the invariant of such runs: the only object that can
  be live is the one \<open>session\<close> refers to, and it is one that was constructed.
\<close>

datatype session_op = EnsureOpen | Close

fun run_op :: "session_op \<Rightarrow> music_api \<Rightarrow> music_api" where
  "run_op EnsureOpen self = create_session self"
| "run_op Close self = close_session self"

fun run_ops :: "session_op list \<Rightarrow> music_api \<Rightarrow> music_api" where
  "run_ops [] self = self"
| "run_ops (x # xs) self = run_ops xs (run_op x self)"

definition one_pool :: "music_api \<Rightarrow> bool" where
  "one_pool self =
     (live self \<subseteq> (case session self of None \<Rightarrow> {} | Some i \<Rightarrow> {i}) \<and>
      (case session self of None \<Rightarrow> True | Some i \<Rightarrow> i < allocated self))"

section \<open>Python strings\<close>

text \<open>
  A Python \<open>str\<close> is modelled as a \<open>string\<close> whose characters are code points
  below 256. \<open>is_space\<close> lists the code points in that range for which
  \<open>str.isspace\<close> holds; \<open>str.strip()\<close> removes them from both ends.
\<close>

definition is_space :: "char \<Rightarrow> bool" where
  "is_space c = ((of_char c :: nat) \<in> {9, 10, 11, 12, 13, 28, 29, 30, 31, 32, 133, 160})"

definition lstrip :: "string \<Rightarrow> string" where
  "lstrip s = dropWhile is_space s"

definition rstrip :: "string \<Rightarrow> string" where
  "rstrip s = rev (dropWhile is_space (rev s))"

definition strip :: "string \<Rightarrow> string" where
  "strip s = rstrip (lstrip s)"

fun starts_with :: "string \<Rightarrow> string \<Rightarrow> bool" where
  "starts_with [] s = True"
| "starts_with (p # ps) [] = False"
| "starts_with (p # ps) (c # cs) = (p = c \<and> starts_with ps cs)"

text \<open>\<open>find_str sep s\<close> is \<open>s.find(sep)\<close>: the index of the first occurrence.\<close>

fun find_str :: "string \<Rightarrow> string \<Rightarrow> nat option" where
  "find_str sep [] = (if sep = [] then Some 0 else None)"
| "find_str sep (c # cs) =
     (if starts_with sep (c # cs) then Some 0 else map_option Suc (find_str sep cs))"

definition contains :: "string \<Rightarrow> string \<Rightarrow> bool" where
  \<comment> \<open>\<open>sep in s\<close>\<close>
  "contains sep s = (find_str sep s \<noteq> None)"

definition split1 :: "string \<Rightarrow> string \<Rightarrow> string list" where
  \<comment> \<open>\<open>s.split(sep, 1)\<close>, for a separator that is not empty\<close>
  "split1 sep s =
     (case find_str sep s of
        None \<Rightarrow> [s]
      | Some i \<Rightarrow> [take i s, drop (i + length sep) s])"

definition before :: "string \<Rightarrow> string \<Rightarrow> string" where
  \<comment> \<open>\<open>s.split(sep)[0]\<close>, for a separator that is not empty\<close>
  "before sep s = (case find_str sep s of None \<Rightarrow> s | Some i \<Rightarrow> take i s)"

section \<open>Query parser: the separators and the cleaning of \<open>lyrics_command\<close>\<close>

definition separators :: "string list" where
  "separators = ['' by '', '' - '', '' | '']"

text \<open>
  The loop over \<open>separators\<close>. \<open>artist\<close> and \<open>title\<close> start as \<open>None\<close> and are
  assigned together, so the pair of variables is one optional pair \<open>(artist, title)\<close>.
\<close>

fun try_separators :: "string list \<Rightarrow> string \<Rightarrow> (string \<times> string) option" where
  "try_separators [] query = None"
| "try_separators (sep # seps) query =
     (if contains sep query
      then (let parts = split1 sep query;
                title = strip (parts ! 0);
                artist = strip (parts ! 1)
            in Some (artist, title))
      else try_separators seps query)"

definition clean_artist :: "string \<Rightarrow> string" where
  \<comment> \<open>\<open>artist.split(' ft.')[0].split(' feat.')[0].strip()\<close>\<close>
  "clean_artist artist = strip (before '' feat.'' (before '' ft.'' artist))"

definition clean_title :: "string \<Rightarrow> string" where
  \<comment> \<open>\<open>title.split(' (')[0].strip()\<close>\<close>
  "clean_title title = strip (before '' ('' title)"

section \<open>JSON values and the Python operations on them\<close>

text \<open>
  A value returned by \<open>response.json()\<close>. \<open>JNull\<close> is Python's \<open>None\<close>, which is also
  what the adapters return for "absent". Numbers are integers. An object is the list
  of its members, with distinct keys.
\<close>

datatype json =
  JNull
| JBool bool
| JNum int
| JStr string
| JArr "json list"
| JObj "(string \<times> json) list"

text \<open>The exceptions of the model; all of them are subclasses of \<open>Exception\<close>.\<close>

datatype exn =
  KeyError
| IndexError
| TypeError
| AttributeError
| ValueError
| TimeoutError
| ClientError

definition andthen :: "exn + 'a \<Rightarrow> ('a \<Rightarrow> exn + 'b) \<Rightarrow> exn + 'b" where
  \<comment> \<open>one statement after another: an exception of the first is raised by the whole\<close>
  "andthen m f = (case m of Inl e \<Rightarrow> Inl e | Inr v \<Rightarrow> f v)"

fun collect :: "('a \<Rightarrow> exn + 'b) \<Rightarrow> 'a list \<Rightarrow> exn + 'b list" where
  \<comment> \<open>the list comprehension \<open>[f(x) for x in xs]\<close>\<close>
  "collect f [] = Inr []"
| "collect f (x # xs) = andthen (f x) (\<lambda>y. andthen (collect f xs) (\<lambda>ys. Inr (y # ys)))"

fun truthy :: "json \<Rightarrow> bool" where
  "truthy JNull = False"
| "truthy (JBool b) = b"
| "truthy (JNum n) = (n \<noteq> 0)"
| "truthy (JStr s) = (s \<noteq> [])"
| "truthy (JArr xs) = (xs \<noteq> [])"
| "truthy (JObj kv) = (kv \<noteq> [])"

fun py_get :: "json \<Rightarrow> string \<Rightarrow> json \<Rightarrow> exn + json" where
  \<comment> \<open>\<open>d.get(k, default)\<close>: only a dict has the method\<close>
  "py_get (JObj kv) k d = Inr (case map_of kv k of None \<Rightarrow> d | Some v \<Rightarrow> v)"
| "py_get _ k d = Inl AttributeError"

fun py_item :: "json \<Rightarrow> string \<Rightarrow> exn + json" where
  \<comment> \<open>\<open>d[k]\<close> with a string \<open>k\<close>\<close>
  "py_item (JObj kv) k = (case map_of kv k of None \<Rightarrow> Inl KeyError | Some v \<Rightarrow> Inr v)"
| "py_item _ k = Inl TypeError"

fun py_first :: "json \<Rightarrow> exn + json" where
  \<comment> \<open>\<open>v[0]\<close>\<close>
  "py_first (JArr []) = Inl IndexError"
| "py_first (JArr (x # xs)) = Inr x"
| "py_first (JStr []) = Inl IndexError"
| "py_first (JStr (c # cs)) = Inr (JStr [c])"
| "py_first (JObj kv) = Inl KeyError"
| "py_first _ = Inl TypeError"

fun py_in :: "string \<Rightarrow> json \<Rightarrow> exn + bool" where
  \<comment> \<open>\<open>k in v\<close> with a string \<open>k\<close>: a key of a dict, a substring of a str, an element of a list\<close>
  "py_in k (JObj kv) = Inr (map_of kv k \<noteq> None)"
| "py_in k (JStr s) = Inr (contains k s)"
| "py_in k (JArr xs) = Inr (JStr k \<in> set xs)"
| "py_in k _ = Inl TypeError"

fun py_slice :: "json \<Rightarrow> nat \<Rightarrow> exn + json" where
  \<comment> \<open>\<open>v[:n]\<close>; on a dict a \<open>TypeError\<close> (a \<open>KeyError\<close> from Python 3.12 on)\<close>
  "py_slice (JArr xs) n = Inr (JArr (take n xs))"
| "py_slice (JStr s) n = Inr (JStr (take n s))"
| "py_slice _ n = Inl TypeError"

fun py_iter :: "json \<Rightarrow> exn + json list" where
  \<comment> \<open>\<open>for x in v\<close>: the elements of a list, the characters of a str, the keys of a dict\<close>
  "py_iter (JArr xs) = Inr xs"
| "py_iter (JStr s) = Inr (map (\<lambda>c. JStr [c]) s)"
| "py_iter (JObj kv) = Inr (map (\<lambda>(k, v). JStr k) kv)"
| "py_iter _ = Inl TypeError"

section \<open>The world outside the program\<close>

text \<open>
  A request is the URL and the query parameters handed to \<open>session.get\<close>. A response
  has its status and what \<open>await response.json()\<close> does: it returns the parsed body or
  raises. The world gives the outcome of every request (a response, or the exception
  raised by the exchange), the value of the environment variable \<open>LASTFM_API_KEY\<close>, and
  two conversions of the interpreter that the program applies to values of the provider:
  \<open>str\<close> of a value that is not a \<open>str\<close>, and \<open>int\<close> of a \<open>str\<close> (\<open>None\<close> where it
  raises \<open>ValueError\<close>).
\<close>

datatype param = PStr string | PInt int | PNone

record request =
  req_url :: string
  req_params :: "(string \<times> param) list"

record response =
  status :: nat
  json_body :: "exn + json"

record world =
  http :: "request \<Rightarrow> exn + response"
  lastfm_api_key :: "string option"
  str_of :: "json \<Rightarrow> string"
  int_of_str :: "string \<Rightarrow> int option"

definition py_str :: "world \<Rightarrow> json \<Rightarrow> string" where
  \<comment> \<open>the text of a value inside an f-string\<close>
  "py_str w v = (case v of JStr s \<Rightarrow> s | _ \<Rightarrow> str_of w v)"

fun py_int :: "world \<Rightarrow> json \<Rightarrow> exn + int" where
  \<comment> \<open>\<open>int(v)\<close>\<close>
  "py_int w (JNum n) = Inr n"
| "py_int w (JBool b) = Inr (if b then 1 else 0)"
| "py_int w (JStr s) = (case int_of_str w s of None \<Rightarrow> Inl ValueError | Some n \<Rightarrow> Inr n)"
| "py_int w _ = Inl TypeError"

definition getenv :: "string option \<Rightarrow> param" where
  "getenv v = (case v of None \<Rightarrow> PNone | Some s \<Rightarrow> PStr s)"

definition session_get :: "world \<Rightarrow> request \<Rightarrow> exn + response" where
  \<comment> \<open>\<open>self.session.get(url, params=params)\<close>: a parameter whose value is \<open>None\<close> is
      refused with a \<open>TypeError\<close> before anything is sent\<close>
  "session_get w req =
     (if list_ex (\<lambda>(k, v). v = PNone) (req_params req) then Inl TypeError else http w req)"

section \<open>The adapters of \<open>MusicAPI\<close>\<close>

text \<open>
  Every adapter calls \<open>create_session\<close> first, so it returns its result together with
  the state of the session manager. A result \<open>Inl e\<close> is an exception that leaves the
  adapter; \<open>Inr v\<close> is the value returned.
\<close>

definition base_url :: string where
  "base_url = ''https://musicbrainz.org/ws/2/''"

definition lyrics_url :: string where
  "lyrics_url = ''https://api.lyrics.ovh/v1/''"

definition trending_url :: string where
  "trending_url = ''https://api.deezer.com/editorial/0/charts''"

definition lastfm_url :: string where
  "lastfm_url = ''http://ws.audioscrobbler.com/2.0/''"

subsection \<open>\<open>fetch_json\<close>\<close>

definition fetch_json_try :: "world \<Rightarrow> request \<Rightarrow> exn + json" where
  \<comment> \<open>the body of the \<open>try\<close>\<close>
  "fetch_json_try w req =
     andthen (session_get w req) (\<lambda>response.
       if status response = 200 then json_body response else Inr JNull)"

definition fetch_json :: "world \<Rightarrow> request \<Rightarrow> music_api \<Rightarrow> (exn + json) \<times> music_api" where
  "fetch_json w req self =
     (let self = create_session self
      in (case fetch_json_try w req of
            Inl TimeoutError \<Rightarrow> Inr JNull
          | Inl e \<Rightarrow> Inr JNull
          | Inr v \<Rightarrow> Inr v,
          self))"

subsection \<open>\<open>get_lyrics\<close>\<close>

definition lyrics_of :: "world \<Rightarrow> json \<Rightarrow> exn + json" where
  \<comment> \<open>the statements of \<open>get_lyrics\<close> after \<open>data = await self.fetch_json(url)\<close>\<close>
  "lyrics_of w data =
     andthen (if truthy data then py_in ''lyrics'' data else Inr False) (\<lambda>has_lyrics.
       if has_lyrics then py_item data ''lyrics''
       else andthen (if truthy data then py_in ''error'' data else Inr False) (\<lambda>has_error.
         if has_error
         then andthen (py_item data ''error'') (\<lambda>e. Inr (JStr (''Error: '' @ py_str w e)))
         else Inr JNull))"

definition lyrics_request :: "string \<Rightarrow> string \<Rightarrow> request" where
  "lyrics_request artist title =
     \<lparr>req_url = lyrics_url @ artist @ ''/'' @ title, req_params = []\<rparr>"

definition get_lyrics ::
  "world \<Rightarrow> string \<Rightarrow> string \<Rightarrow> music_api \<Rightarrow> (exn + json) \<times> music_api" where
  "get_lyrics w artist title self =
     (case fetch_json w (lyrics_request artist title) self of
        (Inl e, self) \<Rightarrow> (Inl e, self)
      | (Inr data, self) \<Rightarrow> (lyrics_of w data, self))"

subsection \<open>\<open>search_track\<close> and \<open>_format_track\<close>\<close>

record track_record =
  track_title :: json
  track_artist :: json
  track_album :: string
  track_duration :: int
  track_url :: string
  track_tags :: "json list"

text \<open>
  \<open>_format_track\<close> in its three parts: the \<open>if\<close> block that sets \<open>album\<close> and
  \<open>release_date\<close>, the assignment of \<open>artist\<close>, and the dictionary returned (with the
  comprehension of its \<open>tags\<close> entry).
\<close>

definition release_info :: "world \<Rightarrow> json \<Rightarrow> exn + (json \<times> string)" where
  "release_info w recording =
     andthen (py_in ''releases'' recording) (\<lambda>has_releases.
     andthen (if has_releases
              then andthen (py_item recording ''releases'') (\<lambda>v. Inr (truthy v))
              else Inr False) (\<lambda>some_release.
       if some_release
       then andthen (py_item recording ''releases'') (\<lambda>releases.
            andthen (py_first releases) (\<lambda>release.
            andthen (py_get release ''title'' (JStr ''Unknown Album'')) (\<lambda>album.
            andthen (py_in ''date'' release) (\<lambda>has_date.
            andthen (if has_date
                     then andthen (py_item release ''date'') (\<lambda>d.
                            Inr ('' ('' @ py_str w d @ '')''))
                     else Inr []) (\<lambda>release_date.
              Inr (album, release_date))))))
       else Inr (JStr ''Unknown Album'', [])))"

definition credited_artist :: "json \<Rightarrow> exn + json" where
  \<comment> \<open>\<open>recording.get('artist-credit', [{}])[0].get('name', 'Unknown Artist')\<close>\<close>
  "credited_artist recording =
     andthen (py_get recording ''artist-credit'' (JArr [JObj []])) (\<lambda>credits.
     andthen (py_first credits) (\<lambda>credit.
       py_get credit ''name'' (JStr ''Unknown Artist'')))"

definition tag_names :: "json \<Rightarrow> exn + json list" where
  \<comment> \<open>\<open>[tag['name'] for tag in recording.get('tags', [])[:3]]\<close>\<close>
  "tag_names recording =
     andthen (py_get recording ''tags'' (JArr [])) (\<lambda>all_tags.
     andthen (py_slice all_tags 3) (\<lambda>first_tags.
     andthen (py_iter first_tags) (\<lambda>tag_list.
       collect (\<lambda>tag. py_item tag ''name'') tag_list)))"

definition format_track :: "world \<Rightarrow> json \<Rightarrow> exn + track_record" where
  "format_track w recording =
     andthen (release_info w recording) (\<lambda>(album, release_date).
     andthen (credited_artist recording) (\<lambda>artist.
     andthen (py_get recording ''title'' (JStr ''Unknown Track'')) (\<lambda>title.
     andthen (py_get recording ''length'' (JNum 0)) (\<lambda>len.
     andthen (py_int w len) (\<lambda>ms.
     andthen (py_item recording ''id'') (\<lambda>rid.
     andthen (tag_names recording) (\<lambda>names.
       Inr \<lparr>track_title = title,
            track_artist = artist,
            track_album = py_str w album @ release_date,
            track_duration = ms div 1000,
            track_url = ''https://musicbrainz.org/recording/'' @ py_str w rid,
            track_tags = names\<rparr>)))))))"

definition search_request :: "string \<Rightarrow> string \<Rightarrow> request" where
  "search_request artist title =
     \<lparr>req_url = base_url @ ''recording/'',
      req_params =
        [(''query'', PStr (''artist:'' @ [CHR 0x22] @ artist @ [CHR 0x22] @
                          '' AND recording:'' @ [CHR 0x22] @ title @ [CHR 0x22])),
         (''fmt'', PStr ''json''),
         (''limit'', PInt 1)]\<rparr>"

definition search_track_try :: "world \<Rightarrow> string \<Rightarrow> string \<Rightarrow> exn + track_record option" where
  \<comment> \<open>the body of the \<open>try\<close>, followed by the final \<open>return None\<close>\<close>
  "search_track_try w artist title =
     andthen (session_get w (search_request artist title)) (\<lambda>response.
       if status response = 200
       then andthen (json_body response) (\<lambda>data.
            andthen (py_get data ''recordings'' JNull) (\<lambda>found.
              if truthy found
              then andthen (py_item data ''recordings'') (\<lambda>recordings.
                   andthen (py_first recordings) (\<lambda>recording.
                   andthen (format_track w recording) (\<lambda>r. Inr (Some r))))
              else Inr None))
       else Inr None)"

definition search_track ::
  "world \<Rightarrow> string \<Rightarrow> string \<Rightarrow> music_api \<Rightarrow> (exn + track_record option) \<times> music_api" where
  "search_track w artist title self =
     (let self = create_session self
      in (case search_track_try w artist title of
            Inl e \<Rightarrow> Inr None
          | Inr r \<Rightarrow> Inr r,
          self))"

subsection \<open>\<open>get_trending\<close>\<close>

definition trending_request :: request where
  "trending_request = \<lparr>req_url = trending_url, req_params = []\<rparr>"

definition get_trending_try :: "world \<Rightarrow> exn + json" where
  "get_trending_try w =
     andthen (session_get w trending_request) (\<lambda>response.
       if status response = 200
       then andthen (json_body response) (\<lambda>data.
            andthen (py_get data ''tracks'' (JObj [])) (\<lambda>tracks.
            andthen (py_get tracks ''data'' (JArr [])) (\<lambda>entries.
              py_slice entries 10)))
       else Inr (JArr []))"

definition get_trending :: "world \<Rightarrow> music_api \<Rightarrow> (exn + json) \<times> music_api" where
  "get_trending w self =
     (let self = create_session self
      in (case get_trending_try w of
            Inl e \<Rightarrow> Inr (JArr [])
          | Inr v \<Rightarrow> Inr v,
          self))"

text \<open>
  What the loop of \<open>trending_command\<close> reads from the entries it is given:
  \<open>track['title']\<close> and \<open>track['artist']['name']\<close> of each of the first 10.
\<close>

definition trending_fields :: "json \<Rightarrow> exn + (json \<times> json) list" where
  "trending_fields trending =
     andthen (py_slice trending 10) (\<lambda>shown.
     andthen (py_iter shown) (\<lambda>entries.
       collect (\<lambda>track.
         andthen (py_item track ''artist'') (\<lambda>a.
         andthen (py_item a ''name'') (\<lambda>artist.
         andthen (py_item track ''title'') (\<lambda>title.
           Inr (title, artist))))) entries))"

subsection \<open>\<open>get_recommendations\<close> and \<open>get_mood_songs\<close>\<close>

definition recommendations_request :: "world \<Rightarrow> string \<Rightarrow> request" where
  "recommendations_request w genre =
     \<lparr>req_url = lastfm_url,
      req_params =
        [(''method'', PStr ''tag.gettoptracks''),
         (''tag'', PStr genre),
         (''api_key'', getenv (lastfm_api_key w)),
         (''format'', PStr ''json''),
         (''limit'', PInt 5)]\<rparr>"

definition get_recommendations_try :: "world \<Rightarrow> string \<Rightarrow> exn + json list" where
  "get_recommendations_try w genre =
     andthen (session_get w (recommendations_request w genre)) (\<lambda>response.
       if status response = 200
       then andthen (json_body response) (\<lambda>data.
            andthen (py_get data ''tracks'' (JObj [])) (\<lambda>tracks.
            andthen (py_get tracks ''track'' (JArr [])) (\<lambda>track_list.
            andthen (py_iter track_list) (\<lambda>entries.
              collect (\<lambda>track. py_item track ''name'') entries))))
       else Inr [])"

definition get_recommendations ::
  "world \<Rightarrow> string \<Rightarrow> music_api \<Rightarrow> (exn + json list) \<times> music_api" where
  "get_recommendations w genre self =
     (let self = create_session self
      in (case get_recommendations_try w genre of
            Inl e \<Rightarrow> Inr []
          | Inr names \<Rightarrow> Inr names,
          self))"

definition mood_request :: "world \<Rightarrow> string \<Rightarrow> request" where
  "mood_request w mood =
     \<lparr>req_url = lastfm_url,
      req_params =
        [(''method'', PStr ''tag.gettoptracks''),
         (''tag'', PStr mood),
         (''api_key'', getenv (lastfm_api_key w)),
         (''format'', PStr ''json''),
         (''limit'', PInt 5)]\<rparr>"

definition mood_song :: "world \<Rightarrow> json \<Rightarrow> exn + string" where
  \<comment> \<open>\<open>f"{track['name']} - {track['artist']['name']}"\<close>\<close>
  "mood_song w track =
     andthen (py_item track ''name'') (\<lambda>name.
     andthen (py_item track ''artist'') (\<lambda>a.
     andthen (py_item a ''name'') (\<lambda>artist_name.
       Inr (py_str w name @ '' - '' @ py_str w artist_name))))"

definition get_mood_songs_try :: "world \<Rightarrow> string \<Rightarrow> exn + string list" where
  "get_mood_songs_try w mood =
     andthen (session_get w (mood_request w mood)) (\<lambda>response.
       if status response = 200
       then andthen (json_body response) (\<lambda>data.
            andthen (py_get data ''tracks'' (JObj [])) (\<lambda>tracks.
            andthen (py_get tracks ''track'' (JArr [])) (\<lambda>track_list.
            andthen (py_iter track_list) (\<lambda>entries.
              collect (mood_song w) entries))))
       else Inr [])"

definition get_mood_songs ::
  "world \<Rightarrow> string \<Rightarrow> music_api \<Rightarrow> (exn + string list) \<times> music_api" where
  "get_mood_songs w mood self =
     (let self = create_session self
      in (case get_mood_songs_try w mood of
            Inl e \<Rightarrow> Inr []
          | Inr songs \<Rightarrow> Inr songs,
          self))"

section \<open>Query parser: \<open>lyrics_command\<close> from \<open>separators = ...\<close> to the cleaned pair\<close>

text \<open>
  When the loop leaves \<open>artist\<close> unset or empty, the command calls
  \<open>music_api.search_track(query)\<close>. The method takes \<open>artist\<close> and \<open>title\<close>; called
  with one argument it raises a \<open>TypeError\<close> before its body runs, and nothing in
  \<open>lyrics_command\<close> catches it. The statements that follow the call are modelled as
  they are written: a track found would give its artist and title, and no track would
  send the usage message and return.
\<close>

definition search_track_missing_title :: "string \<Rightarrow> exn + track_record option" where
  \<comment> \<open>\<open>await music_api.search_track(query)\<close>\<close>
  "search_track_missing_title query = Inl TypeError"

definition lyrics_fallback :: "string \<Rightarrow> exn + (json \<times> json) option" where
  \<comment> \<open>the body of \<open>if not artist:\<close>; \<open>None\<close> is the usage message followed by \<open>return\<close>\<close>
  "lyrics_fallback query =
     andthen (search_track_missing_title query) (\<lambda>track_info.
       case track_info of
         Some t \<Rightarrow> Inr (Some (track_artist t, track_title t))
       | None \<Rightarrow> Inr None)"

definition as_str :: "json \<Rightarrow> exn + string" where
  \<comment> \<open>the receiver of \<open>.split\<close>: only a \<open>str\<close> has the method used here\<close>
  "as_str v = (case v of JStr s \<Rightarrow> Inr s | _ \<Rightarrow> Inl AttributeError)"

text \<open>
  \<open>parse_query\<close> is \<open>lyrics_command\<close> from \<open>separators = ...\<close> to the two assignments that
  clean \<open>artist\<close> and \<open>title\<close>. \<open>Inr (Some (artist, title))\<close> is the pair handed to
  \<open>get_lyrics\<close>; \<open>Inr None\<close> is the usage message followed by \<open>return\<close>; \<open>Inl e\<close> is an
  exception that leaves the command.
\<close>

definition parse_query :: "string \<Rightarrow> exn + (string \<times> string) option" where
  "parse_query query =
     andthen (case try_separators separators query of
                None \<Rightarrow> lyrics_fallback query
              | Some (artist, title) \<Rightarrow>
                  if artist = [] then lyrics_fallback query
                  else Inr (Some (JStr artist, JStr title))) (\<lambda>found.
       case found of
         None \<Rightarrow> Inr None
       | Some (artist, title) \<Rightarrow>
           andthen (as_str artist) (\<lambda>a.
           andthen (as_str title) (\<lambda>t.
             Inr (Some (clean_artist a, clean_title t)))))"

section \<open>Inputs that the properties name\<close>

text \<open>
  A query as \<open>lyrics_command\<close> receives it. \<open>query\<close> is a keyword-only parameter of a
  command that does not set \<open>rest_is_raw\<close>, so the dispatcher of discord.py hands over
  the rest of the message with the whitespace at both ends removed, and raises
  \<open>MissingRequiredArgument\<close> instead of calling the command when nothing is left.
\<close>

definition delivered :: "string \<Rightarrow> bool" where
  "delivered query = (query \<noteq> [] \<and> strip query = query)"

text \<open>
  A well-formed \<open>title - artist\<close> string: both pieces are trimmed, the artist is not
  empty, the whole string has no \<open>" by "\<close>, the separator \<open>" - "\<close> does not begin
  inside the title, the artist names no featured artist and the title has no
  parenthesis.
\<close>

definition well_formed_dash :: "string \<Rightarrow> string \<Rightarrow> bool" where
  "well_formed_dash t a =
     (strip t = t \<and> strip a = a \<and> a \<noteq> [] \<and>
      \<not> contains '' by '' (t @ '' - '' @ a) \<and> \<not> contains '' - '' (t @ '' -'') \<and>
      \<not> contains '' ft.'' a \<and> \<not> contains '' feat.'' a \<and> \<not> contains '' ('' t)"

text \<open>
  A recording that \<open>_format_track\<close> can normalize: it has an \<open>id\<close>; its \<open>length\<close>, when
  present, is a number; its \<open>artist-credit\<close>, when present, is a list that starts with
  an object; its \<open>releases\<close>, when present and truthy, is a list that starts with an
  object; and its \<open>tags\<close>, when present, is a list whose first three entries are
  objects with a \<open>name\<close>.
\<close>

fun length_ok :: "json option \<Rightarrow> bool" where
  "length_ok None = True"
| "length_ok (Some (JNum n)) = True"
| "length_ok (Some _) = False"

fun credits_ok :: "json option \<Rightarrow> bool" where
  "credits_ok None = True"
| "credits_ok (Some (JArr (JObj c # cs))) = True"
| "credits_ok (Some _) = False"

fun releases_ok :: "json option \<Rightarrow> bool" where
  "releases_ok None = True"
| "releases_ok (Some (JArr (JObj r # rs))) = True"
| "releases_ok (Some v) = (\<not> truthy v)"

fun tag_ok :: "json \<Rightarrow> bool" where
  "tag_ok (JObj t) = (map_of t ''name'' \<noteq> None)"
| "tag_ok _ = False"

fun tags_ok :: "json option \<Rightarrow> bool" where
  "tags_ok None = True"
| "tags_ok (Some (JArr ts)) = list_all tag_ok (take 3 ts)"
| "tags_ok (Some _) = False"

definition recording_shaped :: "(string \<times> json) list \<Rightarrow> bool" where
  "recording_shaped kv =
     (map_of kv ''id'' \<noteq> None \<and>
      length_ok (map_of kv ''length'') \<and>
      credits_ok (map_of kv ''artist-credit'') \<and>
      releases_ok (map_of kv ''releases'') \<and>
      tags_ok (map_of kv ''tags''))"

section \<open>Concrete worlds and responses\<close>

text \<open>
  A world for concrete runs: every request has the same outcome, the API key is set,
  and the two conversions are trivial. \<open>ok body\<close> is a response with status 200 and
  that body.
\<close>

definition fixed_world :: "(exn + response) \<Rightarrow> world" where
  "fixed_world outcome =
     \<lparr>http = (\<lambda>req. outcome), lastfm_api_key = Some ''key'',
      str_of = (\<lambda>v. []), int_of_str = (\<lambda>s. None)\<rparr>"

definition ok :: "json \<Rightarrow> exn + response" where
  "ok body = Inr \<lparr>status = 200, json_body = Inr body\<rparr>"

text \<open>\<open>chart entries\<close> is a body of the charts endpoint with that track list.\<close>

definition chart :: "json list \<Rightarrow> json" where
  "chart entries = JObj [(''tracks'', JObj [(''data'', JArr entries)])]"

text \<open>\<open>top_tracks entries\<close> is a body of the top-tracks method with that track list;
  \<open>song n a\<close> is an entry with the name \<open>n\<close> and the artist name \<open>a\<close>.\<close>

definition top_tracks :: "json list \<Rightarrow> json" where
  "top_tracks entries = JObj [(''tracks'', JObj [(''track'', JArr entries)])]"

definition song :: "string \<Rightarrow> string \<Rightarrow> json" where
  "song n a = JObj [(''name'', JStr n), (''artist'', JObj [(''name'', JStr a)])]"


section \<open>Facts about the session manager\<close>

lemma one_pool_init: "one_pool init_api"
  by (simp add: one_pool_def init_api_def)

lemma one_pool_create: "one_pool self \<Longrightarrow> one_pool (create_session self)"
  by (auto simp: one_pool_def create_session_def is_open_def session_closed_def split: option.splits)

lemma one_pool_close: "one_pool self \<Longrightarrow> one_pool (close_session self)"
  by (auto simp: one_pool_def close_session_def session_closed_def split: option.splits)

lemma one_pool_run_ops: "one_pool self \<Longrightarrow> one_pool (run_ops xs self)"
proof (induction xs arbitrary: self)
  case Nil
  then show ?case by simp
next
  case (Cons x xs)
  have "one_pool (run_op x self)"
    using Cons.prems by (cases x) (simp_all add: one_pool_create one_pool_close)
  then show ?case using Cons.IH by simp
qed

lemma one_pool_card: "one_pool self \<Longrightarrow> finite (live self) \<and> card (live self) \<le> 1"
proof -
  assume h: "one_pool self"
  show ?thesis
  proof (cases "session self")
    case None
    then show ?thesis using h by (simp add: one_pool_def)
  next
    case (Some i)
    then have sub: "live self \<subseteq> {i}" using h by (simp add: one_pool_def)
    then have fin: "finite (live self)" by (rule finite_subset) simp
    have "card (live self) \<le> card {i}" using sub by (intro card_mono) simp_all
    then show ?thesis using fin by simp
  qed
qed

lemma create_session_idem: "create_session (create_session self) = create_session self"
  by (simp add: create_session_def is_open_def session_closed_def)

lemma create_session_open: "is_open (create_session self)"
  by (auto simp: create_session_def is_open_def session_closed_def split: option.splits)

lemma close_session_closed: "\<not> is_open (close_session self)"
  by (auto simp: close_session_def is_open_def session_closed_def split: option.splits)

lemma close_session_noop: "\<not> is_open self \<Longrightarrow> close_session self = self"
  by (auto simp: close_session_def is_open_def session_closed_def split: option.splits)

lemma create_after_close_allocates:
  "allocated (create_session (close_session self)) = Suc (allocated (close_session self))"
  using close_session_closed [of self]
  by (auto simp: create_session_def is_open_def split: option.splits)

lemma create_session_allocated:
  "allocated (create_session self) = (if is_open self then allocated self else Suc (allocated self))"
  by (simp add: create_session_def)

lemma close_session_allocated: "allocated (close_session self) = allocated self"
  by (simp add: close_session_def split: option.splits)

section \<open>Facts about the query parser\<close>

subsection \<open>Facts about searching and splitting\<close>

lemma starts_with_prefix: "starts_with p s = prefix p s"
  by (induction p s rule: starts_with.induct) simp_all

lemma find_str_split:
  "find_str sep s = Some i \<Longrightarrow> s = take i s @ sep @ drop (i + length sep) s"
proof (induction s arbitrary: i)
  case Nil
  then show ?case by (simp split: if_splits)
next
  case (Cons c cs)
  show ?case
  proof (cases "starts_with sep (c # cs)")
    case True
    then have "i = 0" using Cons.prems by simp
    moreover obtain r where "c # cs = sep @ r"
      using True by (auto simp: starts_with_prefix prefix_def)
    ultimately show ?thesis by simp
  next
    case False
    then obtain j where j: "find_str sep cs = Some j" "i = Suc j"
      using Cons.prems by auto
    then show ?thesis using Cons.IH [OF j(1)] by simp
  qed
qed

lemma find_str_append:
  "\<exists>i. i \<le> length l \<and> find_str sep (l @ sep @ r) = Some i"
proof (induction l)
  case Nil
  show ?case
  proof (cases "sep @ r")
    case Nil
    then show ?thesis by simp
  next
    case (Cons c cs)
    have "starts_with sep (sep @ r)" by (simp add: starts_with_prefix)
    then show ?thesis using Cons by simp
  qed
next
  case (Cons c l)
  then obtain i where "i \<le> length l" "find_str sep (l @ sep @ r) = Some i" by blast
  then show ?case by auto
qed

lemma contains_iff: "contains sep s = (\<exists>l r. s = l @ sep @ r)"
proof
  assume "contains sep s"
  then obtain i where "find_str sep s = Some i" by (auto simp: contains_def)
  from find_str_split [OF this] show "\<exists>l r. s = l @ sep @ r" by blast
next
  assume "\<exists>l r. s = l @ sep @ r"
  then obtain l r where "s = l @ sep @ r" by blast
  then show "contains sep s" using find_str_append [of l sep r] by (auto simp: contains_def)
qed

lemma find_str_first:
  assumes "sep \<noteq> []" "\<not> contains sep (l @ butlast sep)"
  shows "find_str sep (l @ sep @ r) = Some (length l)"
  using assms(2)
proof (induction l)
  case Nil
  obtain c cs where "sep @ r = c # cs" using assms(1) by (cases "sep @ r") auto
  moreover have "starts_with sep (sep @ r)" by (simp add: starts_with_prefix)
  ultimately show ?case by simp
next
  case (Cons c l)
  have ns: "\<not> starts_with sep (c # l @ butlast sep)" and nc: "\<not> contains sep (l @ butlast sep)"
    using Cons.prems by (auto simp: contains_def split: if_splits)
  have "\<not> starts_with sep (c # l @ sep @ r)"
  proof
    assume "starts_with sep (c # l @ sep @ r)"
    then have p1: "prefix sep ((c # l) @ sep @ r)" by (simp add: starts_with_prefix)
    have "sep = butlast sep @ [last sep]" using assms(1) by simp
    then have "(c # l) @ sep @ r = ((c # l) @ butlast sep) @ ([last sep] @ r)"
      by (metis append.assoc)
    then have p2: "prefix ((c # l) @ butlast sep) ((c # l) @ sep @ r)"
      by (metis prefixI)
    have "length sep \<le> length ((c # l) @ butlast sep)" by simp
    from prefix_length_prefix [OF p1 p2 this] show False
      using ns by (simp add: starts_with_prefix)
  qed
  then show ?case using Cons.IH [OF nc] by simp
qed

lemma try_separators_find:
  "try_separators seps q =
     (case find (\<lambda>sep. contains sep q) seps of
        None \<Rightarrow> None
      | Some sep \<Rightarrow> Some (strip (split1 sep q ! 1), strip (split1 sep q ! 0)))"
  by (induction seps) (simp_all add: Let_def)

lemma split1_found:
  "find_str sep q = Some i \<Longrightarrow> split1 sep q = [take i q, drop (i + length sep) q]"
  by (simp add: split1_def)

lemma find_str_least:
  assumes "find_str sep q = Some i" "q = l @ sep @ r"
  shows "i \<le> length l"
  using find_str_append [of l sep r] assms by auto

lemma before_absent: "\<not> contains sep s \<Longrightarrow> before sep s = s"
  by (simp add: before_def contains_def)

lemma before_no_sep:
  assumes "sep \<noteq> []"
  shows "\<not> contains sep (before sep s)"
proof (cases "find_str sep s")
  case None
  then show ?thesis by (simp add: before_def contains_def)
next
  case (Some i)
  show ?thesis
  proof
    assume "contains sep (before sep s)"
    then obtain l r where lr: "take i s = l @ sep @ r"
      using Some by (auto simp: before_def contains_iff)
    have "s = take i s @ drop i s" by simp
    then have "s = l @ sep @ (r @ drop i s)" using lr by (metis append.assoc)
    from find_str_least [OF Some this] have "i \<le> length l" .
    moreover have "length (take i s) \<le> i" by simp
    moreover have "length (take i s) = length l + length sep + length r"
      using lr by (metis length_append add.assoc)
    moreover have "0 < length sep" using assms by simp
    ultimately show False by linarith
  qed
qed

lemma separators_find:
  "find (\<lambda>sep. contains sep q) separators =
     (if contains '' by '' q then Some '' by ''
      else if contains '' - '' q then Some '' - ''
      else if contains '' | '' q then Some '' | '' else None)"
  by (simp add: separators_def)

lemma lyrics_fallback_raises: "lyrics_fallback q = Inl TypeError"
  by (simp add: lyrics_fallback_def search_track_missing_title_def andthen_def)

lemma parse_query_eq:
  "parse_query q =
     (case try_separators separators q of
        None \<Rightarrow> Inl TypeError
      | Some (artist, title) \<Rightarrow>
          if artist = [] then Inl TypeError
          else Inr (Some (clean_artist artist, clean_title title)))"
  by (simp add: parse_query_def lyrics_fallback_raises andthen_def as_str_def split: option.splits)

lemma parse_query_never_usage: "parse_query q \<noteq> Inr None"
  by (simp add: parse_query_eq split: option.splits)

lemma parse_query_no_separator:
  "find (\<lambda>sep. contains sep q) separators = None \<Longrightarrow> parse_query q = Inl TypeError"
  by (simp add: parse_query_eq try_separators_find)

lemma parse_query_at:
  assumes "find (\<lambda>sep. contains sep q) separators = Some sep" "find_str sep q = Some i"
  shows "parse_query q =
           (if strip (drop (i + length sep) q) = [] then Inl TypeError
            else Inr (Some (clean_artist (strip (drop (i + length sep) q)),
                            clean_title (strip (take i q)))))"
  using assms by (simp add: parse_query_eq try_separators_find split1_found)

lemma parse_query_well_formed:
  assumes "well_formed_dash t a"
  shows "parse_query (t @ '' - '' @ a) = Inr (Some (a, t))"
proof -
  let ?q = "t @ '' - '' @ a"
  have c: "contains '' - '' ?q" by (auto simp: contains_iff)
  have f: "find (\<lambda>sep. contains sep ?q) separators = Some '' - ''"
    using assms c by (simp add: separators_find well_formed_dash_def)
  have "\<not> contains '' - '' (t @ butlast '' - '')"
    using assms by (simp add: well_formed_dash_def)
  then have i: "find_str '' - '' ?q = Some (length t)"
    by (intro find_str_first) simp_all
  have "clean_artist a = a" "clean_title t = t"
    using assms by (simp_all add: well_formed_dash_def clean_artist_def clean_title_def before_absent)
  then show ?thesis
    using parse_query_at [OF f i] assms by (simp add: well_formed_dash_def)
qed

subsection \<open>Queries as the command receives them\<close>

lemma dropWhile_last: "dropWhile P xs \<noteq> [] \<Longrightarrow> last (dropWhile P xs) = last xs"
  by (induction xs) (auto split: if_splits)

lemma strip_Nil_iff: "strip s = [] \<longleftrightarrow> (\<forall>c \<in> set s. is_space c)"
proof
  assume "strip s = []"
  then have a: "\<forall>c \<in> set (dropWhile is_space s). is_space c"
    by (simp add: strip_def rstrip_def lstrip_def dropWhile_eq_Nil_conv)
  have "dropWhile is_space s = []"
  proof (rule ccontr)
    assume n: "dropWhile is_space s \<noteq> []"
    then have "hd (dropWhile is_space s) \<in> set (dropWhile is_space s)" by simp
    then show False using a hd_dropWhile [OF n] by blast
  qed
  then show "\<forall>c \<in> set s. is_space c" by (simp add: dropWhile_eq_Nil_conv)
next
  assume "\<forall>c \<in> set s. is_space c"
  then have "dropWhile is_space s = []" by (simp add: dropWhile_eq_Nil_conv)
  then show "strip s = []" by (simp only: strip_def rstrip_def lstrip_def) simp
qed

lemma lstrip_keeps: "s \<noteq> [] \<Longrightarrow> \<not> is_space (hd s) \<Longrightarrow> lstrip s = s"
  by (cases s) (simp_all add: lstrip_def)

lemma strip_hd:
  assumes "strip s \<noteq> []"
  shows "\<not> is_space (hd (strip s))"
proof -
  let ?y = "dropWhile is_space s"
  let ?z = "dropWhile is_space (rev ?y)"
  have z: "?z \<noteq> []" using assms by (simp add: strip_def rstrip_def lstrip_def)
  have y: "?y \<noteq> []"
  proof
    assume "?y = []"
    then have "?z = []" by (simp only: rev.simps dropWhile.simps)
    then show False using z by simp
  qed
  have "hd (strip s) = last ?z" using z by (simp add: strip_def rstrip_def lstrip_def hd_rev)
  also have "\<dots> = last (rev ?y)" using z by (rule dropWhile_last)
  also have "\<dots> = hd ?y" using y by (simp add: last_rev)
  finally show ?thesis using hd_dropWhile [OF y] by simp
qed

lemma strip_last:
  assumes "strip s \<noteq> []"
  shows "\<not> is_space (last (strip s))"
proof -
  let ?z = "dropWhile is_space (rev (dropWhile is_space s))"
  have z: "?z \<noteq> []" using assms by (simp add: strip_def rstrip_def lstrip_def)
  have "last (strip s) = hd ?z" using z by (simp add: strip_def rstrip_def lstrip_def last_rev)
  then show ?thesis using hd_dropWhile [OF z] by simp
qed

lemma strip_of_hd: "s \<noteq> [] \<Longrightarrow> \<not> is_space (hd s) \<Longrightarrow> strip s \<noteq> [] \<and> hd (strip s) = hd s"
proof -
  assume s: "s \<noteq> []" and h: "\<not> is_space (hd s)"
  have "hd s \<in> set s" using s by simp
  then have "\<not> (\<forall>c \<in> set s. is_space c)" using h by blast
  then have n: "strip s \<noteq> []" by (simp only: strip_Nil_iff not_False_eq_True)
  have l: "lstrip s = s" using s h by (rule lstrip_keeps)
  let ?z = "dropWhile is_space (rev s)"
  have z: "?z \<noteq> []" using n l by (simp add: strip_def rstrip_def)
  have "hd (strip s) = last ?z" using z l by (simp add: strip_def rstrip_def hd_rev)
  also have "\<dots> = last (rev s)" using z by (rule dropWhile_last)
  also have "\<dots> = hd s" using s by (simp add: last_rev)
  finally show ?thesis using n by simp
qed

lemma before_of_hd:
  assumes "s \<noteq> []" "\<not> is_space (hd s)" "sep \<noteq> []" "is_space (hd sep)"
  shows "before sep s \<noteq> [] \<and> hd (before sep s) = hd s"
proof -
  obtain c cs where s: "s = c # cs" using assms(1) by (cases s) auto
  obtain p ps where p: "sep = p # ps" using assms(3) by (cases sep) auto
  have "\<not> starts_with sep s" using assms(2,4) s p by auto
  then show ?thesis using s by (auto simp: before_def split: option.splits)
qed

lemma clean_artist_nonempty:
  assumes "a \<noteq> []" "\<not> is_space (hd a)"
  shows "clean_artist a \<noteq> []"
proof -
  have 1: "before '' ft.'' a \<noteq> [] \<and> hd (before '' ft.'' a) = hd a"
    using assms by (intro before_of_hd) (simp_all add: is_space_def)
  then have 2: "before '' feat.'' (before '' ft.'' a) \<noteq> [] \<and>
      hd (before '' feat.'' (before '' ft.'' a)) = hd a"
    using assms(2) before_of_hd [of "before '' ft.'' a" "'' feat.''"] by (simp add: is_space_def)
  then show ?thesis using assms(2) strip_of_hd by (simp add: clean_artist_def)
qed

lemma clean_title_nonempty:
  assumes "t \<noteq> []" "\<not> is_space (hd t)"
  shows "clean_title t \<noteq> []"
proof -
  have "before '' ('' t \<noteq> [] \<and> hd (before '' ('' t) = hd t"
    using assms by (intro before_of_hd) (simp_all add: is_space_def)
  then show ?thesis using assms(2) strip_of_hd by (simp add: clean_title_def)
qed

lemma separator_spaces:
  "sep \<in> set separators \<Longrightarrow> sep \<noteq> [] \<and> is_space (hd sep) \<and> is_space (last sep)"
  by (auto simp: separators_def is_space_def)

lemma delivered_ends:
  assumes "delivered q"
  shows "\<not> is_space (hd q)" "\<not> is_space (last q)"
  using assms strip_hd [of q] strip_last [of q] by (simp_all add: delivered_def)

lemma delivered_pieces:
  assumes "delivered q" "q = l @ sep @ r" "sep \<in> set separators"
  shows "strip l \<noteq> []" "strip r \<noteq> []"
proof -
  note sp = separator_spaces [OF assms(3)]
  have "l \<noteq> []"
  proof
    assume "l = []"
    then have "hd q = hd sep" using assms(2) sp by simp
    then show False using delivered_ends(1) [OF assms(1)] sp by simp
  qed
  moreover from this have "hd l = hd q" using assms(2) by simp
  ultimately show "strip l \<noteq> []"
    using delivered_ends(1) [OF assms(1)] strip_of_hd [of l] by simp
  have "r \<noteq> []"
  proof
    assume "r = []"
    then have "last q = last sep" using assms(2) sp by simp
    then show False using delivered_ends(2) [OF assms(1)] sp by simp
  qed
  moreover from this have "last r = last q" using assms(2) by simp
  ultimately have "last r \<in> set r" "\<not> is_space (last r)"
    using delivered_ends(2) [OF assms(1)] last_in_set [of r] by simp_all
  then have "\<not> (\<forall>c \<in> set r. is_space c)" by blast
  then show "strip r \<noteq> []" by (simp only: strip_Nil_iff not_False_eq_True)
qed


lemma parse_query_delivered:
  assumes "delivered q" "find (\<lambda>sep. contains sep q) separators = Some sep"
  shows "\<exists>l r. q = l @ sep @ r \<and> (\<forall>l' r'. q = l' @ sep @ r' \<longrightarrow> length l \<le> length l') \<and>
           strip l \<noteq> [] \<and> strip r \<noteq> [] \<and>
           parse_query q = Inr (Some (clean_artist (strip r), clean_title (strip l))) \<and>
           clean_artist (strip r) \<noteq> [] \<and> clean_title (strip l) \<noteq> []"
proof -
  have m: "sep \<in> set separators" "contains sep q"
    using assms(2) by (auto simp: find_Some_iff)
  then obtain i where i: "find_str sep q = Some i" by (auto simp: contains_def)
  let ?l = "take i q" and ?r = "drop (i + length sep) q"
  have q: "q = ?l @ sep @ ?r" using find_str_split [OF i] .
  have least: "\<forall>l' r'. q = l' @ sep @ r' \<longrightarrow> length ?l \<le> length l'"
    using find_str_least [OF i] by (auto simp: min_def)
  note n = delivered_pieces [OF assms(1) q m(1)]
  have p: "parse_query q = Inr (Some (clean_artist (strip ?r), clean_title (strip ?l)))"
    using parse_query_at [OF assms(2) i] n(2) by simp
  have "clean_artist (strip ?r) \<noteq> []"
    using n(2) strip_hd [OF n(2)] by (rule clean_artist_nonempty)
  moreover have "clean_title (strip ?l) \<noteq> []"
    using n(1) strip_hd [OF n(1)] by (rule clean_title_nonempty)
  ultimately have "clean_artist (strip ?r) \<noteq> []" "clean_title (strip ?l) \<noteq> []"
    by simp_all
  then show ?thesis using q least n p by blast
qed

subsection \<open>The parsed pair\<close>

text \<open>
  C1. For every query, as the command receives it, that contains one of the separators
  \<open>" by "\<close>, \<open>" - "\<close>, \<open>" | "\<close>, the parser takes the first of them, in that order, that
  occurs in the query, splits the query at the first occurrence of that separator, and
  yields the pair of the artist (the trimmed piece after the separator, cut before
  \<open>" ft."\<close> and before \<open>" feat."\<close>, and trimmed again) and the title (the trimmed piece
  before the separator, cut before \<open>" ("\<close>, and trimmed again). In particular a
  well-formed \<open>title - artist\<close> string gives back its title and its artist, and
  \<open>Shape of You by Ed Sheeran\<close> gives the title \<open>Shape of You\<close> and the artist
  \<open>Ed Sheeran\<close>.
\<close>

theorem parse_query_splits_at_separator:
  "(delivered q \<and> (contains '' by '' q \<or> contains '' - '' q \<or> contains '' | '' q) \<longrightarrow>
      (\<exists>l r. let sep = (if contains '' by '' q then '' by ''
                         else if contains '' - '' q then '' - '' else '' | '')
             in q = l @ sep @ r \<and>
                (\<forall>l' r'. q = l' @ sep @ r' \<longrightarrow> length l \<le> length l') \<and>
                parse_query q =
                  Inr (Some (strip (before '' feat.'' (before '' ft.'' (strip r))),
                             strip (before '' ('' (strip l)))))) \<and>
   (well_formed_dash t a \<longrightarrow> parse_query (t @ '' - '' @ a) = Inr (Some (a, t))) \<and>
   parse_query ''Shape of You by Ed Sheeran'' = Inr (Some (''Ed Sheeran'', ''Shape of You''))"
proof (intro conjI impI)
  assume h: "delivered q \<and> (contains '' by '' q \<or> contains '' - '' q \<or> contains '' | '' q)"
  then obtain sep where sep: "find (\<lambda>sep. contains sep q) separators = Some sep"
      and eq: "sep = (if contains '' by '' q then '' by ''
                       else if contains '' - '' q then '' - '' else '' | '')"
    by (auto simp: separators_find)
  from h have d: "delivered q" by simp
  from parse_query_delivered [OF d sep] obtain l r where
    "q = l @ sep @ r" "\<forall>l' r'. q = l' @ sep @ r' \<longrightarrow> length l \<le> length l'"
    "parse_query q = Inr (Some (clean_artist (strip r), clean_title (strip l)))"
    by blast
  then show "\<exists>l r. let sep = (if contains '' by '' q then '' by ''
                         else if contains '' - '' q then '' - '' else '' | '')
             in q = l @ sep @ r \<and>
                (\<forall>l' r'. q = l' @ sep @ r' \<longrightarrow> length l \<le> length l') \<and>
                parse_query q =
                  Inr (Some (strip (before '' feat.'' (before '' ft.'' (strip r))),
                             strip (before '' ('' (strip l))))"
    unfolding Let_def eq [symmetric] clean_artist_def clean_title_def
    by (intro exI [of _ l] exI [of _ r]) simp
next
  assume "well_formed_dash t a"
  then show "parse_query (t @ '' - '' @ a) = Inr (Some (a, t))" by (rule parse_query_well_formed)
next
  show "parse_query ''Shape of You by Ed Sheeran'' = Inr (Some (''Ed Sheeran'', ''Shape of You''))"
    by code_simp
qed

text \<open>The theorem at \<open>Stand by Me - Ben E. King\<close>, where \<open>" by "\<close> comes before \<open>" - "\<close>,
  and at \<open>Hello - Adele\<close>.\<close>

theorem parse_query_splits_witness:
  "delivered ''Stand by Me - Ben E. King'' \<and> contains '' by '' ''Stand by Me - Ben E. King'' \<and>
   parse_query ''Stand by Me - Ben E. King'' = Inr (Some (''Me - Ben E. King'', ''Stand'')) \<and>
   parse_query ''Hello (Live) - Adele ft. Sia'' = Inr (Some (''Adele'', ''Hello'')) \<and>
   well_formed_dash ''Hello'' ''Adele'' \<and>
   parse_query ''Hello - Adele'' = Inr (Some (''Adele'', ''Hello''))"
proof -
  let ?q = "''Stand by Me - Ben E. King''"
  have d: "delivered ?q" by code_simp
  have c: "contains '' by '' ?q" by code_simp
  note th = parse_query_splits_at_separator [of ?q "''Hello''" "''Adele''"]
  from th d c have "\<exists>l r. let sep = (if contains '' by '' ?q then '' by ''
                         else if contains '' - '' ?q then '' - '' else '' | '')
             in ?q = l @ sep @ r \<and>
                (\<forall>l' r'. ?q = l' @ sep @ r' \<longrightarrow> length l \<le> length l') \<and>
                parse_query ?q =
                  Inr (Some (strip (before '' feat.'' (before '' ft.'' (strip r))),
                             strip (before '' ('' (strip l))))"
    by blast
  then have e: "\<exists>l r. ?q = l @ '' by '' @ r \<and>
                parse_query ?q =
                  Inr (Some (strip (before '' feat.'' (before '' ft.'' (strip r))),
                             strip (before '' ('' (strip l))))"
    unfolding Let_def if_P [OF c] by blast
  have p: "parse_query ?q = Inr (Some (''Me - Ben E. King'', ''Stand''))" by code_simp
  have p2: "parse_query ''Hello (Live) - Adele ft. Sia'' = Inr (Some (''Adele'', ''Hello''))"
    by code_simp
  have w: "well_formed_dash ''Hello'' ''Adele''" by code_simp
  have "parse_query (''Hello'' @ '' - '' @ ''Adele'') = Inr (Some (''Adele'', ''Hello''))"
    using th w by blast
  then show ?thesis using d c e p p2 w by simp
qed

text \<open>
  C2. What the code does where the claim has a typed negative result. For a query as
  the command receives it: with none of the separators in it, the command calls
  \<open>music_api.search_track(query)\<close> with one argument, and the \<open>TypeError\<close> of that call
  leaves the command; with a separator in it, both pieces are non-empty after trimming
  and the command goes on with a pair whose artist and title are not empty. The usage
  message, the negative result that the code was written to give, is never reached.
\<close>

theorem parse_query_failure_raises:
  "(delivered q \<and> \<not> contains '' by '' q \<and> \<not> contains '' - '' q \<and> \<not> contains '' | '' q \<longrightarrow>
      parse_query q = Inl TypeError) \<and>
   (delivered q \<and> (contains '' by '' q \<or> contains '' - '' q \<or> contains '' | '' q) \<longrightarrow>
      (\<exists>artist title. parse_query q = Inr (Some (artist, title)) \<and> artist \<noteq> [] \<and> title \<noteq> [])) \<and>
   parse_query q \<noteq> Inr None"
proof (intro conjI impI)
  assume "delivered q \<and> \<not> contains '' by '' q \<and> \<not> contains '' - '' q \<and> \<not> contains '' | '' q"
  then have "find (\<lambda>sep. contains sep q) separators = None" by (simp add: separators_find)
  then show "parse_query q = Inl TypeError" by (rule parse_query_no_separator)
next
  assume h: "delivered q \<and> (contains '' by '' q \<or> contains '' - '' q \<or> contains '' | '' q)"
  then have "find (\<lambda>sep. contains sep q) separators \<noteq> None"
    by (auto simp: separators_find)
  then obtain sep where sep: "find (\<lambda>sep. contains sep q) separators = Some sep"
    by blast
  from h have d: "delivered q" by simp
  from parse_query_delivered [OF d sep]
  show "\<exists>artist title. parse_query q = Inr (Some (artist, title)) \<and> artist \<noteq> [] \<and> title \<noteq> []"
    by blast
next
  show "parse_query q \<noteq> Inr None" by (rule parse_query_never_usage)
qed

text \<open>The theorem at \<open>Hello\<close>, which has no separator, and at \<open>Hello | Adele\<close>.\<close>

theorem parse_query_failure_witness:
  "delivered ''Hello'' \<and> \<not> contains '' by '' ''Hello'' \<and> \<not> contains '' - '' ''Hello'' \<and>
   \<not> contains '' | '' ''Hello'' \<and> parse_query ''Hello'' = Inl TypeError \<and>
   delivered ''Hello | Adele'' \<and> contains '' | '' ''Hello | Adele'' \<and>
   parse_query ''Hello | Adele'' = Inr (Some (''Adele'', ''Hello''))"
proof -
  have a: "delivered ''Hello'' \<and> \<not> contains '' by '' ''Hello'' \<and> \<not> contains '' - '' ''Hello'' \<and>
           \<not> contains '' | '' ''Hello''" by code_simp
  have b: "parse_query ''Hello'' = Inl TypeError"
    using parse_query_failure_raises [of "''Hello''"] a by blast
  have c: "delivered ''Hello | Adele'' \<and> contains '' | '' ''Hello | Adele''" by code_simp
  have "\<exists>artist title. parse_query ''Hello | Adele'' = Inr (Some (artist, title)) \<and>
          artist \<noteq> [] \<and> title \<noteq> []"
    using parse_query_failure_raises [of "''Hello | Adele''"] c by blast
  moreover have "parse_query ''Hello | Adele'' = Inr (Some (''Adele'', ''Hello''))" by code_simp
  ultimately show ?thesis using a b c by simp
qed

section \<open>Facts about the adapters\<close>

subsection \<open>\<open>fetch_json\<close>\<close>

lemma fetch_json_ok:
  "session_get w req = Inr r \<Longrightarrow> status r = 200 \<Longrightarrow> json_body r = Inr j \<Longrightarrow>
     fst (fetch_json w req self) = Inr j"
  by (simp add: fetch_json_def fetch_json_try_def andthen_def Let_def)

lemma fetch_json_absent:
  "session_get w req = Inl e \<or> (\<exists>r. session_get w req = Inr r \<and> (status r \<noteq> 200 \<or> json_body r = Inl e)) \<Longrightarrow>
     fst (fetch_json w req self) = Inr JNull"
  by (auto simp: fetch_json_def fetch_json_try_def andthen_def Let_def split: sum.splits exn.splits)

lemma fetch_json_returns: "\<exists>v. fst (fetch_json w req self) = Inr v"
  by (auto simp: fetch_json_def fetch_json_try_def andthen_def Let_def split: sum.splits exn.splits)

lemma fetch_json_session: "snd (fetch_json w req self) = create_session self"
  by (simp add: fetch_json_def Let_def)

lemma session_get_fixed: "session_get (fixed_world outcome) \<lparr>req_url = u, req_params = []\<rparr> = outcome"
  by (simp add: session_get_def fixed_world_def)

text \<open>
  C5. \<open>fetch_json\<close> returns the parsed body when the exchange gives a response with
  status 200 whose body is read; it returns \<open>None\<close> on any other status, when the
  exchange raises (a timeout or any other exception) and when reading the body raises.
  A result other than \<open>None\<close> comes from a response with status 200 only. No exception
  leaves \<open>fetch_json\<close>, and the session is the one \<open>create_session\<close> leaves.
\<close>

theorem fetch_json_total:
 "(session_get w req = Inr r \<and> status r = 200 \<and> json_body r = Inr j \<longrightarrow>
     fst (fetch_json w req self) = Inr j) \<and>
  (session_get w req = Inr r \<and> status r \<noteq> 200 \<longrightarrow> fst (fetch_json w req self) = Inr JNull) \<and>
  (session_get w req = Inl e \<longrightarrow> fst (fetch_json w req self) = Inr JNull) \<and>
  (session_get w req = Inr r \<and> json_body r = Inl e \<longrightarrow> fst (fetch_json w req self) = Inr JNull) \<and>
  (fst (fetch_json w req self) = Inr j \<and> j \<noteq> JNull \<longrightarrow>
     (\<exists>r. session_get w req = Inr r \<and> status r = 200 \<and> json_body r = Inr j)) \<and>
  (\<exists>v. fst (fetch_json w req self) = Inr v) \<and>
  snd (fetch_json w req self) = create_session self"
  by (auto simp: fetch_json_def fetch_json_try_def andthen_def Let_def split: sum.splits exn.splits)

text \<open>The theorem at a response with status 200, one with status 404, a timeout and a
  connection error.\<close>

theorem fetch_json_witness:
  "fst (fetch_json (fixed_world (ok (JNum 3))) trending_request init_api) = Inr (JNum 3) \<and>
   fst (fetch_json (fixed_world (Inr \<lparr>status = 404, json_body = Inr (JNum 3)\<rparr>))
          trending_request init_api) = Inr JNull \<and>
   fst (fetch_json (fixed_world (Inl TimeoutError)) trending_request init_api) = Inr JNull \<and>
   fst (fetch_json (fixed_world (Inl ClientError)) trending_request init_api) = Inr JNull"
proof -
  let ?r = "\<lparr>status = 200, json_body = Inr (JNum 3)\<rparr>"
  let ?n = "\<lparr>status = 404, json_body = Inr (JNum 3)\<rparr>"
  have a: "session_get (fixed_world (ok (JNum 3))) trending_request = Inr ?r \<and>
           status ?r = 200 \<and> json_body ?r = Inr (JNum 3)"
    by (simp add: trending_request_def session_get_fixed ok_def)
  have b: "session_get (fixed_world (Inr ?n)) trending_request = Inr ?n \<and> status ?n \<noteq> 200"
    by (simp add: trending_request_def session_get_fixed)
  have c: "session_get (fixed_world (Inl TimeoutError)) trending_request = Inl TimeoutError"
    by (simp add: trending_request_def session_get_fixed)
  have d: "session_get (fixed_world (Inl ClientError)) trending_request = Inl ClientError"
    by (simp add: trending_request_def session_get_fixed)
  have "fst (fetch_json (fixed_world (ok (JNum 3))) trending_request init_api) = Inr (JNum 3)"
    using fetch_json_total [of "fixed_world (ok (JNum 3))" trending_request ?r "JNum 3" init_api] a
    by blast
  moreover have "fst (fetch_json (fixed_world (Inr ?n)) trending_request init_api) = Inr JNull"
    using fetch_json_total [of "fixed_world (Inr ?n)" trending_request ?n _ init_api] b by blast
  moreover have "fst (fetch_json (fixed_world (Inl TimeoutError)) trending_request init_api) = Inr JNull"
    using fetch_json_total [of "fixed_world (Inl TimeoutError)" trending_request _ _ init_api TimeoutError] c
    by blast
  moreover have "fst (fetch_json (fixed_world (Inl ClientError)) trending_request init_api) = Inr JNull"
    using fetch_json_total [of "fixed_world (Inl ClientError)" trending_request _ _ init_api ClientError] d
    by blast
  ultimately show ?thesis by simp
qed

subsection \<open>\<open>get_lyrics\<close>\<close>

lemma get_lyrics_fetch:
  "fst (fetch_json w (lyrics_request artist title) self) = Inr data \<Longrightarrow>
     fst (get_lyrics w artist title self) = lyrics_of w data"
  by (cases "fetch_json w (lyrics_request artist title) self") (simp add: get_lyrics_def)

lemma lyrics_of_object:
  "lyrics_of w (JObj kv) =
     (case map_of kv ''lyrics'' of
        Some l \<Rightarrow> Inr l
      | None \<Rightarrow> (case map_of kv ''error'' of
                   Some e \<Rightarrow> Inr (JStr (''Error: '' @ py_str w e))
                 | None \<Rightarrow> Inr JNull))"
  by (cases kv) (auto simp: lyrics_of_def andthen_def split: option.splits)

lemma lyrics_of_falsy: "\<not> truthy data \<Longrightarrow> lyrics_of w data = Inr JNull"
  by (simp add: lyrics_of_def andthen_def)

text \<open>
  C6 (as amended). For a response with status 200 whose body is a JSON object:
  with a \<open>lyrics\<close> member, its value is returned; with no \<open>lyrics\<close> member and an
  \<open>error\<close> member, the result is \<open>"Error: "\<close> followed by the error string (for
  \<open>{"error":"No lyrics found"}\<close> it is \<open>"Error: No lyrics found"\<close>); with neither, the
  result is \<open>None\<close>. It is \<open>None\<close> also for a body that is not truthy, for a status
  other than 200 and when the exchange or the reading of the body raises. Whenever
  the fetched body is an object or is not truthy, no exception leaves \<open>get_lyrics\<close>.
\<close>

theorem get_lyrics_outcomes:
  "(session_get w (lyrics_request artist title) = Inr r \<and> status r = 200 \<and>
      json_body r = Inr (JObj kv) \<longrightarrow>
        (map_of kv ''lyrics'' = Some l \<longrightarrow> fst (get_lyrics w artist title self) = Inr l) \<and>
        (map_of kv ''lyrics'' = None \<and> map_of kv ''error'' = Some (JStr msg) \<longrightarrow>
           fst (get_lyrics w artist title self) = Inr (JStr (''Error: '' @ msg))) \<and>
        (map_of kv ''lyrics'' = None \<and> map_of kv ''error'' = None \<longrightarrow>
           fst (get_lyrics w artist title self) = Inr JNull)) \<and>
   (session_get w (lyrics_request artist title) = Inr r \<and> status r = 200 \<and>
      json_body r = Inr data \<and> \<not> truthy data \<longrightarrow>
        fst (get_lyrics w artist title self) = Inr JNull) \<and>
   (session_get w (lyrics_request artist title) = Inl e \<or>
    (\<exists>r. session_get w (lyrics_request artist title) = Inr r \<and>
         (status r \<noteq> 200 \<or> json_body r = Inl e)) \<longrightarrow>
        fst (get_lyrics w artist title self) = Inr JNull) \<and>
   (session_get w (lyrics_request artist title) = Inr r \<and> status r = 200 \<and>
      json_body r = Inr (JObj [(''error'', JStr ''No lyrics found'')]) \<longrightarrow>
        fst (get_lyrics w artist title self) = Inr (JStr ''Error: No lyrics found'')) \<and>
   (fst (fetch_json w (lyrics_request artist title) self) = Inr (JObj kv) \<or>
    (\<exists>data. fst (fetch_json w (lyrics_request artist title) self) = Inr data \<and> \<not> truthy data) \<longrightarrow>
        (\<exists>v. fst (get_lyrics w artist title self) = Inr v))"
proof (intro conjI impI)
  assume h: "session_get w (lyrics_request artist title) = Inr r \<and> status r = 200 \<and>
      json_body r = Inr (JObj kv)"
  then have f: "fst (get_lyrics w artist title self) = lyrics_of w (JObj kv)"
    by (intro get_lyrics_fetch fetch_json_ok [of w _ r]) simp_all
  show "fst (get_lyrics w artist title self) = Inr l" if "map_of kv ''lyrics'' = Some l"
    using f that by (simp add: lyrics_of_object)
  show "fst (get_lyrics w artist title self) = Inr (JStr (''Error: '' @ msg))"
    if "map_of kv ''lyrics'' = None \<and> map_of kv ''error'' = Some (JStr msg)"
    using f that by (simp add: lyrics_of_object py_str_def)
  show "fst (get_lyrics w artist title self) = Inr JNull"
    if "map_of kv ''lyrics'' = None \<and> map_of kv ''error'' = None"
    using f that by (simp add: lyrics_of_object)
next
  assume h: "session_get w (lyrics_request artist title) = Inr r \<and> status r = 200 \<and>
      json_body r = Inr data \<and> \<not> truthy data"
  then have "fst (get_lyrics w artist title self) = lyrics_of w data"
    by (intro get_lyrics_fetch fetch_json_ok [of w _ r]) simp_all
  then show "fst (get_lyrics w artist title self) = Inr JNull"
    using h by (simp add: lyrics_of_falsy)
next
  assume "session_get w (lyrics_request artist title) = Inl e \<or>
    (\<exists>r. session_get w (lyrics_request artist title) = Inr r \<and>
         (status r \<noteq> 200 \<or> json_body r = Inl e))"
  then have "fst (fetch_json w (lyrics_request artist title) self) = Inr JNull"
    by (rule fetch_json_absent)
  then have "fst (get_lyrics w artist title self) = lyrics_of w JNull"
    by (rule get_lyrics_fetch)
  then show "fst (get_lyrics w artist title self) = Inr JNull"
    by (simp add: lyrics_of_falsy)
next
  assume h: "session_get w (lyrics_request artist title) = Inr r \<and> status r = 200 \<and>
      json_body r = Inr (JObj [(''error'', JStr ''No lyrics found'')])"
  then have "fst (get_lyrics w artist title self) =
      lyrics_of w (JObj [(''error'', JStr ''No lyrics found'')])"
    by (intro get_lyrics_fetch fetch_json_ok [of w _ r]) simp_all
  then show "fst (get_lyrics w artist title self) = Inr (JStr ''Error: No lyrics found'')"
    by (simp add: lyrics_of_object py_str_def)
next
  assume "fst (fetch_json w (lyrics_request artist title) self) = Inr (JObj kv) \<or>
    (\<exists>data. fst (fetch_json w (lyrics_request artist title) self) = Inr data \<and> \<not> truthy data)"
  then show "\<exists>v. fst (get_lyrics w artist title self) = Inr v"
  proof
    assume "fst (fetch_json w (lyrics_request artist title) self) = Inr (JObj kv)"
    then have "fst (get_lyrics w artist title self) = lyrics_of w (JObj kv)"
      by (rule get_lyrics_fetch)
    then show ?thesis by (simp add: lyrics_of_object split: option.splits)
  next
    assume "\<exists>data. fst (fetch_json w (lyrics_request artist title) self) = Inr data \<and> \<not> truthy data"
    then obtain data where d: "fst (fetch_json w (lyrics_request artist title) self) = Inr data"
      "\<not> truthy data" by blast
    from get_lyrics_fetch [OF d(1)] d(2) show ?thesis by (simp add: lyrics_of_falsy)
  qed
qed

lemma session_get_lyrics_fixed:
  "session_get (fixed_world outcome) (lyrics_request artist title) = outcome"
  by (simp add: lyrics_request_def session_get_fixed)

text \<open>The theorem at a body with lyrics, one with an error, one with neither, and a
  timeout.\<close>

theorem get_lyrics_witness:
  "fst (get_lyrics (fixed_world (ok (JObj [(''lyrics'', JStr ''Hello, it is me'')])))
         ''Adele'' ''Hello'' init_api) = Inr (JStr ''Hello, it is me'') \<and>
   fst (get_lyrics (fixed_world (ok (JObj [(''error'', JStr ''No lyrics found'')])))
         ''Adele'' ''Hello'' init_api) = Inr (JStr ''Error: No lyrics found'') \<and>
   fst (get_lyrics (fixed_world (ok (JObj [(''id'', JNum 1)])))
         ''Adele'' ''Hello'' init_api) = Inr JNull \<and>
   fst (get_lyrics (fixed_world (Inl TimeoutError)) ''Adele'' ''Hello'' init_api) = Inr JNull"
proof -
  let ?l = "[(''lyrics'', JStr ''Hello, it is me'')]"
  let ?e = "[(''error'', JStr ''No lyrics found'')]"
  let ?n = "[(''id'', JNum 1)]"
  have "fst (get_lyrics (fixed_world (ok (JObj ?l))) ''Adele'' ''Hello'' init_api) =
          Inr (JStr ''Hello, it is me'')"
    using get_lyrics_outcomes [of "fixed_world (ok (JObj ?l))" "''Adele''" "''Hello''"
        "\<lparr>status = 200, json_body = Inr (JObj ?l)\<rparr>" ?l "JStr ''Hello, it is me''" init_api]
    by (simp add: session_get_lyrics_fixed ok_def)
  moreover have "fst (get_lyrics (fixed_world (ok (JObj ?e))) ''Adele'' ''Hello'' init_api) =
          Inr (JStr ''Error: No lyrics found'')"
    using get_lyrics_outcomes [of "fixed_world (ok (JObj ?e))" "''Adele''" "''Hello''"
        "\<lparr>status = 200, json_body = Inr (JObj ?e)\<rparr>" ?e _ init_api "''No lyrics found''"]
    by (simp add: session_get_lyrics_fixed ok_def)
  moreover have "fst (get_lyrics (fixed_world (ok (JObj ?n))) ''Adele'' ''Hello'' init_api) =
          Inr JNull"
    using get_lyrics_outcomes [of "fixed_world (ok (JObj ?n))" "''Adele''" "''Hello''"
        "\<lparr>status = 200, json_body = Inr (JObj ?n)\<rparr>" ?n _ init_api]
    by (simp add: session_get_lyrics_fixed ok_def)
  moreover have "fst (get_lyrics (fixed_world (Inl TimeoutError)) ''Adele'' ''Hello'' init_api) =
          Inr JNull"
    using get_lyrics_outcomes [of "fixed_world (Inl TimeoutError)" "''Adele''" "''Hello''"
        _ _ _ init_api _ _ TimeoutError]
    by (simp add: session_get_lyrics_fixed)
  ultimately show ?thesis by simp
qed

text \<open>
  The claim as first stated, for every provider response, fails: with status 200 and the
  body \<open>42\<close>, which has neither member, \<open>'lyrics' in data\<close> raises a \<open>TypeError\<close> that
  nothing in \<open>get_lyrics\<close> catches; and with status 404 the body
  \<open>{"error":"No lyrics found"}\<close> gives \<open>None\<close>, not the error string.
\<close>

theorem get_lyrics_raises_counterexample:
  "fst (get_lyrics (fixed_world (ok (JNum 42))) ''Adele'' ''Hello'' init_api) = Inl TypeError \<and>
   fst (get_lyrics
         (fixed_world (Inr \<lparr>status = 404,
                               json_body = Inr (JObj [(''error'', JStr ''No lyrics found'')])\<rparr>))
         ''Adele'' ''Hello'' init_api) = Inr JNull"
  by (simp add: get_lyrics_def fetch_json_def fetch_json_try_def session_get_lyrics_fixed ok_def
      andthen_def lyrics_of_def Let_def)

subsection \<open>List comprehensions\<close>

lemma collect_list_all2:
  "list_all2 (\<lambda>x y. f x = Inr y) xs ys \<Longrightarrow> collect f xs = Inr ys"
  by (induction xs ys rule: list_all2_induct) (simp_all add: andthen_def)

lemma collect_Inr_iff:
  "collect f xs = Inr ys \<longleftrightarrow> list_all2 (\<lambda>x y. f x = Inr y) xs ys"
proof (induction xs arbitrary: ys)
  case Nil
  then show ?case by auto
next
  case (Cons x xs)
  show ?case
  proof (cases "f x")
    case (Inl e)
    then show ?thesis by (auto simp: andthen_def list_all2_Cons1)
  next
    case (Inr y)
    then show ?thesis
      using Cons.IH by (cases "collect f xs") (auto simp: andthen_def list_all2_Cons1)
  qed
qed

lemma collect_length: "collect f xs = Inr ys \<Longrightarrow> length ys = length xs"
  by (simp add: collect_Inr_iff list_all2_lengthD)

lemma collect_all:
  "\<forall>x \<in> set xs. \<exists>y. f x = Inr y \<Longrightarrow> \<exists>ys. collect f xs = Inr ys"
proof (induction xs)
  case Nil
  then show ?case by simp
next
  case (Cons x xs)
  then obtain y ys where "f x = Inr y" "collect f xs = Inr ys" by auto
  then show ?case by (simp add: andthen_def)
qed

lemma collect_fails:
  "x \<in> set xs \<Longrightarrow> f x = Inl e \<Longrightarrow> \<exists>e'. collect f xs = Inl e'"
proof (induction xs)
  case Nil
  then show ?case by simp
next
  case (Cons a xs)
  show ?case
  proof (cases "f a")
    case (Inl e')
    then show ?thesis by (simp add: andthen_def)
  next
    case (Inr y)
    then have "x \<in> set xs" using Cons.prems by auto
    then obtain e' where "collect f xs = Inl e'" using Cons by blast
    then show ?thesis using Inr by (simp add: andthen_def)
  qed
qed

subsection \<open>\<open>get_trending\<close>\<close>

lemma py_slice_shape:
  "py_slice v n = Inr u \<Longrightarrow>
     (\<exists>xs. u = JArr xs \<and> length xs \<le> n) \<or> (\<exists>s. u = JStr s \<and> length s \<le> n)"
  by (cases v) auto

lemma get_trending_try_shape:
  "get_trending_try w = Inr u \<Longrightarrow>
     (\<exists>xs. u = JArr xs \<and> length xs \<le> 10) \<or> (\<exists>s. u = JStr s \<and> length s \<le> 10)"
  by (auto simp: get_trending_try_def andthen_def split: sum.splits if_splits dest: py_slice_shape)

lemma get_trending_returns:
  "\<exists>u. fst (get_trending w self) = Inr u \<and>
     ((\<exists>xs. u = JArr xs \<and> length xs \<le> 10) \<or> (\<exists>s. u = JStr s \<and> length s \<le> 10))"
proof (cases "get_trending_try w")
  case (Inl e)
  then show ?thesis by (simp add: get_trending_def Let_def)
next
  case (Inr u)
  then show ?thesis using get_trending_try_shape [OF Inr] by (simp add: get_trending_def Let_def)
qed

lemma get_trending_list:
  assumes "session_get w trending_request = Inr r" "status r = 200" "json_body r = Inr (JObj kv)"
    "map_of kv ''tracks'' = Some (JObj tkv)" "map_of tkv ''data'' = Some (JArr xs)"
  shows "fst (get_trending w self) = Inr (JArr (take 10 xs))"
  using assms by (simp add: get_trending_def get_trending_try_def andthen_def Let_def)

lemma get_trending_exchange_fails:
  assumes "session_get w trending_request = Inl e \<or>
     (\<exists>r. session_get w trending_request = Inr r \<and> (status r \<noteq> 200 \<or> json_body r = Inl e))"
  shows "fst (get_trending w self) = Inr (JArr [])"
  using assms by (auto simp: get_trending_def get_trending_try_def andthen_def Let_def)

lemma get_trending_missing:
  assumes "session_get w trending_request = Inr r" "status r = 200" "json_body r = Inr (JObj kv)"
    "map_of kv ''tracks'' = None \<or>
     (\<exists>tkv. map_of kv ''tracks'' = Some (JObj tkv) \<and> map_of tkv ''data'' = None)"
  shows "fst (get_trending w self) = Inr (JArr [])"
  using assms by (auto simp: get_trending_def get_trending_try_def andthen_def Let_def)

text \<open>
  C4 (as amended). When the response has status 200 and its body holds a list under
  \<open>tracks.data\<close>, \<open>get_trending\<close> returns the first 10 entries of that list as the
  provider sent them, in the provider's order (exactly 10 of 50). When the exchange
  raises, the status is not 200, the body cannot be read, or \<open>tracks\<close> or \<open>data\<close> is
  missing, it returns the empty list. It never raises and never returns \<open>None\<close>: the
  result is a list of at most 10 entries (or, when the provider sends a string where
  the list should be, at most its first 10 characters).
\<close>

theorem get_trending_first_ten:
  "(session_get w trending_request = Inr r \<and> status r = 200 \<and> json_body r = Inr (JObj kv) \<and>
      map_of kv ''tracks'' = Some (JObj tkv) \<and> map_of tkv ''data'' = Some (JArr xs) \<longrightarrow>
        fst (get_trending w self) = Inr (JArr (take 10 xs)) \<and>
        length (take 10 xs) \<le> 10 \<and>
        (length xs = 50 \<longrightarrow> length (take 10 xs) = 10) \<and>
        (\<forall>i < length (take 10 xs). take 10 xs ! i = xs ! i)) \<and>
   (session_get w trending_request = Inl e \<or>
    (\<exists>r. session_get w trending_request = Inr r \<and> (status r \<noteq> 200 \<or> json_body r = Inl e)) \<longrightarrow>
        fst (get_trending w self) = Inr (JArr [])) \<and>
   (session_get w trending_request = Inr r \<and> status r = 200 \<and> json_body r = Inr (JObj kv) \<and>
      (map_of kv ''tracks'' = None \<or>
       (\<exists>tkv. map_of kv ''tracks'' = Some (JObj tkv) \<and> map_of tkv ''data'' = None)) \<longrightarrow>
        fst (get_trending w self) = Inr (JArr [])) \<and>
   (\<exists>u. fst (get_trending w self) = Inr u \<and> u \<noteq> JNull \<and>
        ((\<exists>ys. u = JArr ys \<and> length ys \<le> 10) \<or> (\<exists>s. u = JStr s \<and> length s \<le> 10)))"
proof (intro conjI impI)
  assume "session_get w trending_request = Inr r \<and> status r = 200 \<and> json_body r = Inr (JObj kv) \<and>
      map_of kv ''tracks'' = Some (JObj tkv) \<and> map_of tkv ''data'' = Some (JArr xs)"
  then show "fst (get_trending w self) = Inr (JArr (take 10 xs))"
    by (intro get_trending_list [of w r kv tkv]) simp_all
next
  show "length (take 10 xs) \<le> 10" by simp
next
  assume "length xs = 50"
  then show "length (take 10 xs) = 10" by simp
next
  show "\<forall>i < length (take 10 xs). take 10 xs ! i = xs ! i" by simp
next
  assume "session_get w trending_request = Inl e \<or>
    (\<exists>r. session_get w trending_request = Inr r \<and> (status r \<noteq> 200 \<or> json_body r = Inl e))"
  then show "fst (get_trending w self) = Inr (JArr [])" by (rule get_trending_exchange_fails)
next
  assume "session_get w trending_request = Inr r \<and> status r = 200 \<and> json_body r = Inr (JObj kv) \<and>
      (map_of kv ''tracks'' = None \<or>
       (\<exists>tkv. map_of kv ''tracks'' = Some (JObj tkv) \<and> map_of tkv ''data'' = None))"
  then show "fst (get_trending w self) = Inr (JArr [])"
    by (intro get_trending_missing [of w r kv]) simp_all
next
  show "\<exists>u. fst (get_trending w self) = Inr u \<and> u \<noteq> JNull \<and>
        ((\<exists>ys. u = JArr ys \<and> length ys \<le> 10) \<or> (\<exists>s. u = JStr s \<and> length s \<le> 10))"
    using get_trending_returns [of w self] by auto
qed

lemma session_get_trending_fixed: "session_get (fixed_world outcome) trending_request = outcome"
  by (simp add: trending_request_def session_get_fixed)

text \<open>The theorem at a chart of 50 entries, at a response with status 503 and at a body
  without \<open>tracks\<close>.\<close>

theorem get_trending_witness:
  "length (map JNum [1..50]) = 50 \<and>
   fst (get_trending (fixed_world (ok (chart (map JNum [1..50])))) init_api) =
     Inr (JArr (map JNum [1..10])) \<and>
   fst (get_trending (fixed_world (Inr \<lparr>status = 503, json_body = Inr (chart [JNum 1])\<rparr>))
          init_api) = Inr (JArr []) \<and>
   fst (get_trending (fixed_world (ok (JObj [(''total'', JNum 0)]))) init_api) = Inr (JArr [])"
proof -
  let ?xs = "map JNum [1..50]"
  let ?r = "\<lparr>status = 200, json_body = Inr (chart ?xs)\<rparr>"
  let ?n = "\<lparr>status = 503, json_body = Inr (chart [JNum 1])\<rparr>"
  let ?m = "\<lparr>status = 200, json_body = Inr (JObj [(''total'', JNum 0)])\<rparr>"
  have l: "length ?xs = 50" by code_simp
  have t: "take 10 ?xs = map JNum [1..10]" by code_simp
  have "fst (get_trending (fixed_world (ok (chart ?xs))) init_api) = Inr (JArr (take 10 ?xs))"
    using get_trending_first_ten [of "fixed_world (ok (chart ?xs))" ?r
        "[(''tracks'', JObj [(''data'', JArr ?xs)])]" "[(''data'', JArr ?xs)]" ?xs init_api]
    by (simp only: session_get_trending_fixed ok_def chart_def) simp
  then have a: "fst (get_trending (fixed_world (ok (chart ?xs))) init_api) =
      Inr (JArr (map JNum [1..10]))" by (simp only: t)
  have b: "fst (get_trending (fixed_world (Inr ?n)) init_api) = Inr (JArr [])"
    using get_trending_first_ten [of "fixed_world (Inr ?n)" _ _ _ _ init_api]
    by (simp add: session_get_trending_fixed)
  have c: "fst (get_trending (fixed_world (ok (JObj [(''total'', JNum 0)]))) init_api) = Inr (JArr [])"
    using get_trending_first_ten [of "fixed_world (ok (JObj [(''total'', JNum 0)]))" ?m
        "[(''total'', JNum 0)]" _ _ init_api]
    by (simp add: session_get_trending_fixed ok_def)
  show ?thesis using l a b c by simp
qed

text \<open>
  The claim as first stated has every returned entry reduced to title and artist name,
  and has missing fields give the empty sequence. \<open>get_trending\<close> does neither: an
  entry that has only an \<open>id\<close> comes back as it is, and the loop of
  \<open>trending_command\<close>, which reads the two fields, then raises a \<open>KeyError\<close>.
\<close>

theorem get_trending_whole_entries_counterexample:
  "fst (get_trending (fixed_world (ok (chart [JObj [(''id'', JNum 7)]]))) init_api) =
     Inr (JArr [JObj [(''id'', JNum 7)]]) \<and>
   trending_fields (JArr [JObj [(''id'', JNum 7)]]) = Inl KeyError"
  by (simp add: get_trending_def get_trending_try_def session_get_trending_fixed ok_def chart_def
      andthen_def Let_def trending_fields_def)

subsection \<open>\<open>get_recommendations\<close> and \<open>get_mood_songs\<close>\<close>

lemma same_request: "recommendations_request w tag = mood_request w tag"
  by (simp add: recommendations_request_def mood_request_def)

lemma session_get_no_key:
  "lastfm_api_key w = None \<Longrightarrow> session_get w (mood_request w tag) = Inl TypeError"
  by (simp add: session_get_def mood_request_def getenv_def)

lemma get_recommendations_try_eq:
  assumes "session_get w (mood_request w tag) = Inr r" "status r = 200"
    "json_body r = Inr (JObj kv)" "map_of kv ''tracks'' = Some (JObj tkv)"
    "map_of tkv ''track'' = Some (JArr xs)"
  shows "get_recommendations_try w tag = collect (\<lambda>track. py_item track ''name'') xs"
  using assms by (simp add: get_recommendations_try_def same_request andthen_def)

lemma get_mood_songs_try_eq:
  assumes "session_get w (mood_request w tag) = Inr r" "status r = 200"
    "json_body r = Inr (JObj kv)" "map_of kv ''tracks'' = Some (JObj tkv)"
    "map_of tkv ''track'' = Some (JArr xs)"
  shows "get_mood_songs_try w tag = collect (mood_song w) xs"
  using assms by (simp add: get_mood_songs_try_def andthen_def)

lemma get_recommendations_of_try:
  "fst (get_recommendations w tag self) =
     (case get_recommendations_try w tag of Inl e \<Rightarrow> Inr [] | Inr names \<Rightarrow> Inr names)"
  by (simp add: get_recommendations_def Let_def)

lemma get_mood_songs_of_try:
  "fst (get_mood_songs w tag self) =
     (case get_mood_songs_try w tag of Inl e \<Rightarrow> Inr [] | Inr songs \<Rightarrow> Inr songs)"
  by (simp add: get_mood_songs_def Let_def)

lemma get_recommendations_returns: "\<exists>v. fst (get_recommendations w tag self) = Inr v"
  by (simp add: get_recommendations_of_try split: sum.splits)

lemma get_mood_songs_returns: "\<exists>v. fst (get_mood_songs w tag self) = Inr v"
  by (simp add: get_mood_songs_of_try split: sum.splits)

lemma get_recommendations_exchange_fails:
  assumes "session_get w (mood_request w tag) = Inl e \<or>
     (\<exists>r. session_get w (mood_request w tag) = Inr r \<and> (status r \<noteq> 200 \<or> json_body r = Inl e))"
  shows "fst (get_recommendations w tag self) = Inr []"
  using assms
  by (auto simp: get_recommendations_of_try get_recommendations_try_def same_request andthen_def)

lemma get_mood_songs_exchange_fails:
  assumes "session_get w (mood_request w tag) = Inl e \<or>
     (\<exists>r. session_get w (mood_request w tag) = Inr r \<and> (status r \<noteq> 200 \<or> json_body r = Inl e))"
  shows "fst (get_mood_songs w tag self) = Inr []"
  using assms
  by (auto simp: get_mood_songs_of_try get_mood_songs_try_def andthen_def)

lemma mood_song_strings:
  assumes "py_item track ''name'' = Inr (JStr n)" "py_item track ''artist'' = Inr art"
    "py_item art ''name'' = Inr (JStr a)"
  shows "mood_song w track = Inr (n @ '' - '' @ a)"
  using assms by (simp add: mood_song_def andthen_def py_str_def)

lemma mood_song_defined:
  assumes "py_item track ''name'' = Inr n" "py_item track ''artist'' = Inr art"
    "py_item art ''name'' = Inr a"
  shows "\<exists>s. mood_song w track = Inr s"
  using assms by (simp add: mood_song_def andthen_def)

text \<open>
  C7 (as amended). \<open>get_recommendations\<close> and \<open>get_mood_songs\<close> send the same request:
  the top-tracks method of the same URL, with the tag and the limit 5. For a response
  with status 200 whose body holds a track list: when every entry has a \<open>name\<close>,
  \<open>get_recommendations\<close> returns the names; when every entry has a \<open>name\<close> and an
  \<open>artist\<close> with a \<open>name\<close>, \<open>get_mood_songs\<close> returns \<open>name - artist name\<close> for every
  entry. When the
  exchange raises, the status is not 200 or the body cannot be read, and when the API
  key is not set, both return the empty list. No exception leaves either of them.
\<close>

theorem tag_adapters_same_endpoint:
  "recommendations_request w tag = mood_request w tag \<and>
   req_url (mood_request w tag) = lastfm_url \<and>
   map_of (req_params (mood_request w tag)) ''method'' = Some (PStr ''tag.gettoptracks'') \<and>
   map_of (req_params (mood_request w tag)) ''tag'' = Some (PStr tag) \<and>
   map_of (req_params (mood_request w tag)) ''limit'' = Some (PInt 5) \<and>
   (session_get w (mood_request w tag) = Inr r \<and> status r = 200 \<and>
      json_body r = Inr (JObj kv) \<and> map_of kv ''tracks'' = Some (JObj tkv) \<and>
      map_of tkv ''track'' = Some (JArr xs) \<longrightarrow>
        (list_all2 (\<lambda>track n. py_item track ''name'' = Inr n) xs names \<longrightarrow>
           fst (get_recommendations w tag self) = Inr names) \<and>
        (list_all2 (\<lambda>track s. \<exists>n art a. py_item track ''name'' = Inr (JStr n) \<and>
                      py_item track ''artist'' = Inr art \<and> py_item art ''name'' = Inr (JStr a) \<and>
                      s = n @ '' - '' @ a) xs songs \<longrightarrow>
           fst (get_mood_songs w tag self) = Inr songs)) \<and>
   (session_get w (mood_request w tag) = Inl e \<or>
    (\<exists>r. session_get w (mood_request w tag) = Inr r \<and> (status r \<noteq> 200 \<or> json_body r = Inl e)) \<longrightarrow>
        fst (get_recommendations w tag self) = Inr [] \<and> fst (get_mood_songs w tag self) = Inr []) \<and>
   (lastfm_api_key w = None \<longrightarrow>
        fst (get_recommendations w tag self) = Inr [] \<and> fst (get_mood_songs w tag self) = Inr []) \<and>
   (\<exists>names. fst (get_recommendations w tag self) = Inr names) \<and>
   (\<exists>songs. fst (get_mood_songs w tag self) = Inr songs)"
proof (intro conjI impI)
  show "recommendations_request w tag = mood_request w tag" by (rule same_request)
  show "req_url (mood_request w tag) = lastfm_url" by (simp add: mood_request_def)
  show "map_of (req_params (mood_request w tag)) ''method'' = Some (PStr ''tag.gettoptracks'')"
    by (simp add: mood_request_def)
  show "map_of (req_params (mood_request w tag)) ''tag'' = Some (PStr tag)"
    by (simp add: mood_request_def)
  show "map_of (req_params (mood_request w tag)) ''limit'' = Some (PInt 5)"
    by (simp add: mood_request_def)
  show "\<exists>names. fst (get_recommendations w tag self) = Inr names"
    by (rule get_recommendations_returns)
  show "\<exists>songs. fst (get_mood_songs w tag self) = Inr songs"
    by (rule get_mood_songs_returns)
next
  assume h: "session_get w (mood_request w tag) = Inr r \<and> status r = 200 \<and>
      json_body r = Inr (JObj kv) \<and> map_of kv ''tracks'' = Some (JObj tkv) \<and>
      map_of tkv ''track'' = Some (JArr xs)"
  assume "list_all2 (\<lambda>track n. py_item track ''name'' = Inr n) xs names"
  then have "collect (\<lambda>track. py_item track ''name'') xs = Inr names"
    by (rule collect_list_all2)
  moreover have "get_recommendations_try w tag = collect (\<lambda>track. py_item track ''name'') xs"
    using h by (intro get_recommendations_try_eq [of w tag r kv tkv]) simp_all
  ultimately show "fst (get_recommendations w tag self) = Inr names"
    by (simp add: get_recommendations_of_try)
next
  assume h: "session_get w (mood_request w tag) = Inr r \<and> status r = 200 \<and>
      json_body r = Inr (JObj kv) \<and> map_of kv ''tracks'' = Some (JObj tkv) \<and>
      map_of tkv ''track'' = Some (JArr xs)"
  assume "list_all2 (\<lambda>track s. \<exists>n art a. py_item track ''name'' = Inr (JStr n) \<and>
                      py_item track ''artist'' = Inr art \<and> py_item art ''name'' = Inr (JStr a) \<and>
                      s = n @ '' - '' @ a) xs songs"
  then have "list_all2 (\<lambda>track s. mood_song w track = Inr s) xs songs"
    by (rule list_all2_mono) (auto simp: mood_song_strings)
  then have "collect (mood_song w) xs = Inr songs"
    by (rule collect_list_all2)
  moreover have "get_mood_songs_try w tag = collect (mood_song w) xs"
    using h by (intro get_mood_songs_try_eq [of w tag r kv tkv]) simp_all
  ultimately show "fst (get_mood_songs w tag self) = Inr songs"
    by (simp add: get_mood_songs_of_try)
next
  assume f: "session_get w (mood_request w tag) = Inl e \<or>
    (\<exists>r. session_get w (mood_request w tag) = Inr r \<and> (status r \<noteq> 200 \<or> json_body r = Inl e))"
  show "fst (get_recommendations w tag self) = Inr []"
    using f by (rule get_recommendations_exchange_fails)
  show "fst (get_mood_songs w tag self) = Inr []"
    using f by (rule get_mood_songs_exchange_fails)
next
  assume "lastfm_api_key w = None"
  then have k: "session_get w (mood_request w tag) = Inl TypeError"
    by (rule session_get_no_key)
  show "fst (get_recommendations w tag self) = Inr []"
    using k by (intro get_recommendations_exchange_fails [of w tag TypeError]) simp
  show "fst (get_mood_songs w tag self) = Inr []"
    using k by (intro get_mood_songs_exchange_fails [of w tag TypeError]) simp
qed

lemma session_get_mood_fixed: "session_get (fixed_world outcome) (mood_request (fixed_world outcome) tag) = outcome"
  by (simp add: session_get_def mood_request_def fixed_world_def getenv_def)

text \<open>The theorem at a list of two entries, at a connection error and with the API key
  not set.\<close>

theorem tag_adapters_witness:
  "fst (get_recommendations (fixed_world (ok (top_tracks [song ''A'' ''X'', song ''B'' ''Y''])))
         ''rock'' init_api) = Inr [JStr ''A'', JStr ''B''] \<and>
   fst (get_mood_songs (fixed_world (ok (top_tracks [song ''A'' ''X'', song ''B'' ''Y''])))
         ''rock'' init_api) = Inr [''A - X'', ''B - Y''] \<and>
   fst (get_recommendations (fixed_world (Inl ClientError)) ''rock'' init_api) = Inr [] \<and>
   fst (get_mood_songs (fixed_world (Inl ClientError)) ''rock'' init_api) = Inr [] \<and>
   fst (get_recommendations ((fixed_world (ok (top_tracks [song ''A'' ''X''])))\<lparr>lastfm_api_key := None\<rparr>)
         ''rock'' init_api) = Inr [] \<and>
   fst (get_mood_songs ((fixed_world (ok (top_tracks [song ''A'' ''X''])))\<lparr>lastfm_api_key := None\<rparr>)
         ''rock'' init_api) = Inr []"
proof -
  let ?xs = "[song ''A'' ''X'', song ''B'' ''Y'']"
  let ?w = "fixed_world (ok (top_tracks ?xs))"
  let ?r = "\<lparr>status = 200, json_body = Inr (top_tracks ?xs)\<rparr>"
  let ?u = "(fixed_world (ok (top_tracks [song ''A'' ''X''])))\<lparr>lastfm_api_key := None\<rparr>"
  have g: "session_get ?w (mood_request ?w ''rock'') = Inr ?r \<and> status ?r = 200 \<and>
      json_body ?r = Inr (JObj [(''tracks'', JObj [(''track'', JArr ?xs)])]) \<and>
      map_of [(''tracks'', JObj [(''track'', JArr ?xs)])] ''tracks'' = Some (JObj [(''track'', JArr ?xs)]) \<and>
      map_of [(''track'', JArr ?xs)] ''track'' = Some (JArr ?xs)"
    by (simp add: session_get_mood_fixed ok_def top_tracks_def)
  have n: "list_all2 (\<lambda>track n. py_item track ''name'' = Inr n) ?xs [JStr ''A'', JStr ''B'']"
    by (simp add: song_def)
  have m: "list_all2 (\<lambda>track s. \<exists>n art a. py_item track ''name'' = Inr (JStr n) \<and>
                      py_item track ''artist'' = Inr art \<and> py_item art ''name'' = Inr (JStr a) \<and>
                      s = n @ '' - '' @ a) ?xs [''A - X'', ''B - Y'']"
    by (simp add: song_def)
  note th = tag_adapters_same_endpoint [of ?w "''rock''" ?r "[(''tracks'', JObj [(''track'', JArr ?xs)])]"
      "[(''track'', JArr ?xs)]" ?xs "[JStr ''A'', JStr ''B'']" init_api "[''A - X'', ''B - Y'']"]
  have a: "fst (get_recommendations ?w ''rock'' init_api) = Inr [JStr ''A'', JStr ''B'']"
    using th g n by blast
  have b: "fst (get_mood_songs ?w ''rock'' init_api) = Inr [''A - X'', ''B - Y'']"
    using th g m by blast
  have f: "session_get (fixed_world (Inl ClientError)) (mood_request (fixed_world (Inl ClientError)) ''rock'')
             = Inl ClientError"
    by (simp add: session_get_mood_fixed)
  have c: "fst (get_recommendations (fixed_world (Inl ClientError)) ''rock'' init_api) = Inr [] \<and>
           fst (get_mood_songs (fixed_world (Inl ClientError)) ''rock'' init_api) = Inr []"
    using tag_adapters_same_endpoint [of "fixed_world (Inl ClientError)" "''rock''" _ _ _ _ _ init_api _ ClientError] f
    by blast
  have k: "lastfm_api_key ?u = None" by simp
  have d: "fst (get_recommendations ?u ''rock'' init_api) = Inr [] \<and>
           fst (get_mood_songs ?u ''rock'' init_api) = Inr []"
    using tag_adapters_same_endpoint [of ?u "''rock''" _ _ _ _ _ init_api] k by blast
  show ?thesis using a b c d by simp
qed

text \<open>
  The claim as first stated has the two results differ in shape only, for every
  successful response. They differ in more: for a track list whose second entry has a
  \<open>name\<close> and no \<open>artist\<close>, \<open>get_recommendations\<close> returns both names and
  \<open>get_mood_songs\<close> returns the empty list.
\<close>

theorem tag_adapters_shape_counterexample:
  "fst (get_recommendations
         (fixed_world (ok (top_tracks [song ''A'' ''X'', JObj [(''name'', JStr ''B'')]])))
         ''rock'' init_api) = Inr [JStr ''A'', JStr ''B''] \<and>
   fst (get_mood_songs
         (fixed_world (ok (top_tracks [song ''A'' ''X'', JObj [(''name'', JStr ''B'')]])))
         ''rock'' init_api) = Inr []"
  by (simp add: get_recommendations_of_try get_recommendations_try_def same_request
      get_mood_songs_of_try get_mood_songs_try_def session_get_mood_fixed ok_def
      top_tracks_def song_def mood_song_def andthen_def py_str_def)

text \<open>
  C10. For a response with status 200 whose track list has \<open>n\<close> entries, each with a
  \<open>name\<close> (and, for the mood adapter, an \<open>artist\<close> with a \<open>name\<close>), both adapters
  return exactly \<open>n\<close> strings, whatever \<open>n\<close> is: the limit 5 is a parameter of the
  request only. A list returned by \<open>get_trending\<close> has at most 10 entries.
\<close>

theorem tag_adapters_no_client_limit:
  "(session_get w (mood_request w tag) = Inr r \<and> status r = 200 \<and>
      json_body r = Inr (JObj kv) \<and> map_of kv ''tracks'' = Some (JObj tkv) \<and>
      map_of tkv ''track'' = Some (JArr xs) \<longrightarrow>
        ((\<forall>track \<in> set xs. \<exists>n. py_item track ''name'' = Inr n) \<longrightarrow>
           (\<exists>names. fst (get_recommendations w tag self) = Inr names \<and>
                    length names = length xs)) \<and>
        ((\<forall>track \<in> set xs. \<exists>n art a. py_item track ''name'' = Inr n \<and>
              py_item track ''artist'' = Inr art \<and> py_item art ''name'' = Inr a) \<longrightarrow>
           (\<exists>songs. fst (get_mood_songs w tag self) = Inr songs \<and>
                    length songs = length xs))) \<and>
   recommendations_request w tag = mood_request w tag \<and>
   map_of (req_params (mood_request w tag)) ''limit'' = Some (PInt 5) \<and>
   (fst (get_trending w self) = Inr (JArr ys) \<longrightarrow> length ys \<le> 10)"
proof (intro conjI impI)
  show "recommendations_request w tag = mood_request w tag" by (rule same_request)
  show "map_of (req_params (mood_request w tag)) ''limit'' = Some (PInt 5)"
    by (simp add: mood_request_def)
  show "length ys \<le> 10" if "fst (get_trending w self) = Inr (JArr ys)"
    using get_trending_returns [of w self] that by auto
next
  assume h: "session_get w (mood_request w tag) = Inr r \<and> status r = 200 \<and>
      json_body r = Inr (JObj kv) \<and> map_of kv ''tracks'' = Some (JObj tkv) \<and>
      map_of tkv ''track'' = Some (JArr xs)"
  assume "\<forall>track \<in> set xs. \<exists>n. py_item track ''name'' = Inr n"
  then obtain names where c: "collect (\<lambda>track. py_item track ''name'') xs = Inr names"
    using collect_all [of xs "\<lambda>track. py_item track ''name''"] by blast
  have "get_recommendations_try w tag = collect (\<lambda>track. py_item track ''name'') xs"
    using h by (intro get_recommendations_try_eq [of w tag r kv tkv]) simp_all
  then have "fst (get_recommendations w tag self) = Inr names"
    using c by (simp add: get_recommendations_of_try)
  then show "\<exists>names. fst (get_recommendations w tag self) = Inr names \<and> length names = length xs"
    using collect_length [OF c] by simp
next
  assume h: "session_get w (mood_request w tag) = Inr r \<and> status r = 200 \<and>
      json_body r = Inr (JObj kv) \<and> map_of kv ''tracks'' = Some (JObj tkv) \<and>
      map_of tkv ''track'' = Some (JArr xs)"
  assume "\<forall>track \<in> set xs. \<exists>n art a. py_item track ''name'' = Inr n \<and>
              py_item track ''artist'' = Inr art \<and> py_item art ''name'' = Inr a"
  then have "\<forall>track \<in> set xs. \<exists>s. mood_song w track = Inr s"
    using mood_song_defined by blast
  then obtain songs where c: "collect (mood_song w) xs = Inr songs"
    using collect_all [of xs "mood_song w"] by blast
  have "get_mood_songs_try w tag = collect (mood_song w) xs"
    using h by (intro get_mood_songs_try_eq [of w tag r kv tkv]) simp_all
  then have "fst (get_mood_songs w tag self) = Inr songs"
    using c by (simp add: get_mood_songs_of_try)
  then show "\<exists>songs. fst (get_mood_songs w tag self) = Inr songs \<and> length songs = length xs"
    using collect_length [OF c] by simp
qed

text \<open>The theorem at a track list of 7 entries.\<close>

theorem tag_adapters_no_client_limit_witness:
  "length (replicate 7 (song ''A'' ''X'')) = 7 \<and>
   (\<exists>names. fst (get_recommendations (fixed_world (ok (top_tracks (replicate 7 (song ''A'' ''X'')))))
                   ''rock'' init_api) = Inr names \<and> length names = 7) \<and>
   (\<exists>songs. fst (get_mood_songs (fixed_world (ok (top_tracks (replicate 7 (song ''A'' ''X'')))))
                   ''rock'' init_api) = Inr songs \<and> length songs = 7)"
proof -
  let ?xs = "replicate 7 (song ''A'' ''X'')"
  let ?w = "fixed_world (ok (top_tracks ?xs))"
  let ?r = "\<lparr>status = 200, json_body = Inr (top_tracks ?xs)\<rparr>"
  have g: "session_get ?w (mood_request ?w ''rock'') = Inr ?r \<and> status ?r = 200 \<and>
      json_body ?r = Inr (JObj [(''tracks'', JObj [(''track'', JArr ?xs)])]) \<and>
      map_of [(''tracks'', JObj [(''track'', JArr ?xs)])] ''tracks'' = Some (JObj [(''track'', JArr ?xs)]) \<and>
      map_of [(''track'', JArr ?xs)] ''track'' = Some (JArr ?xs)"
    by (simp add: session_get_mood_fixed ok_def top_tracks_def)
  have n: "\<forall>track \<in> set ?xs. \<exists>n. py_item track ''name'' = Inr n"
    by (simp add: song_def)
  have m: "\<forall>track \<in> set ?xs. \<exists>n art a. py_item track ''name'' = Inr n \<and>
              py_item track ''artist'' = Inr art \<and> py_item art ''name'' = Inr a"
    by (simp add: song_def)
  note th = tag_adapters_no_client_limit [of ?w "''rock''" ?r "[(''tracks'', JObj [(''track'', JArr ?xs)])]"
      "[(''track'', JArr ?xs)]" ?xs init_api]
  have a: "\<exists>names. fst (get_recommendations ?w ''rock'' init_api) = Inr names \<and> length names = length ?xs"
    using th g n by blast
  have b: "\<exists>songs. fst (get_mood_songs ?w ''rock'' init_api) = Inr songs \<and> length songs = length ?xs"
    using th g m by blast
  show ?thesis using a b by simp
qed

subsection \<open>\<open>search_track\<close> and \<open>_format_track\<close>\<close>

lemma andthen_Inr: "andthen (Inr x) f = f x"
  by (simp add: andthen_def)

lemma andthen_Inl: "andthen (Inl e) f = Inl e"
  by (simp add: andthen_def)

lemma andthen_Inr_iff: "andthen m f = Inr y \<longleftrightarrow> (\<exists>x. m = Inr x \<and> f x = Inr y)"
  by (cases m) (simp_all add: andthen_def)

lemma release_info_none:
  "map_of kv ''releases'' = None \<or> (\<exists>v. map_of kv ''releases'' = Some v \<and> \<not> truthy v) \<Longrightarrow>
     release_info w (JObj kv) = Inr (JStr ''Unknown Album'', [])"
  by (auto simp: release_info_def andthen_Inr)

lemma release_info_first:
  "map_of kv ''releases'' = Some (JArr (JObj rkv # rs)) \<Longrightarrow>
     release_info w (JObj kv) =
       Inr (case map_of rkv ''title'' of None \<Rightarrow> JStr ''Unknown Album'' | Some a \<Rightarrow> a,
            case map_of rkv ''date'' of None \<Rightarrow> [] | Some d \<Rightarrow> '' ('' @ py_str w d @ '')'')"
  by (auto simp: release_info_def andthen_Inr split: option.splits)

lemma credited_artist_none:
  "map_of kv ''artist-credit'' = None \<Longrightarrow> credited_artist (JObj kv) = Inr (JStr ''Unknown Artist'')"
  by (simp add: credited_artist_def andthen_Inr)

lemma credited_artist_first:
  "map_of kv ''artist-credit'' = Some (JArr (JObj ckv # cs)) \<Longrightarrow>
     credited_artist (JObj kv) =
       Inr (case map_of ckv ''name'' of None \<Rightarrow> JStr ''Unknown Artist'' | Some v \<Rightarrow> v)"
  by (simp add: credited_artist_def andthen_Inr)

lemma tag_names_none: "map_of kv ''tags'' = None \<Longrightarrow> tag_names (JObj kv) = Inr []"
  by (simp add: tag_names_def andthen_Inr)

lemma tag_names_list:
  "map_of kv ''tags'' = Some (JArr ts) \<Longrightarrow>
     tag_names (JObj kv) = collect (\<lambda>tag. py_item tag ''name'') (take 3 ts)"
  by (simp add: tag_names_def andthen_Inr)

lemma format_track_Inr_iff:
  "format_track w (JObj kv) = Inr t \<longleftrightarrow>
     (\<exists>album release_date artist ms rid names.
        release_info w (JObj kv) = Inr (album, release_date) \<and>
        credited_artist (JObj kv) = Inr artist \<and>
        py_int w (case map_of kv ''length'' of None \<Rightarrow> JNum 0 | Some v \<Rightarrow> v) = Inr ms \<and>
        map_of kv ''id'' = Some rid \<and>
        tag_names (JObj kv) = Inr names \<and>
        t = \<lparr>track_title = (case map_of kv ''title'' of None \<Rightarrow> JStr ''Unknown Track'' | Some v \<Rightarrow> v),
             track_artist = artist,
             track_album = py_str w album @ release_date,
             track_duration = ms div 1000,
             track_url = ''https://musicbrainz.org/recording/'' @ py_str w rid,
             track_tags = names\<rparr>)"
  by (auto simp: format_track_def andthen_Inr_iff split: option.splits)

lemma shaped_release:
  assumes "releases_ok (map_of kv ''releases'')"
  shows "\<exists>p. release_info w (JObj kv) = Inr p"
  using assms
proof (cases "map_of kv ''releases''" rule: releases_ok.cases)
  case 1
  then show ?thesis by (simp add: release_info_none)
next
  case (2 r rs)
  then show ?thesis by (simp add: release_info_first)
qed (use assms in \<open>simp_all add: release_info_none\<close>)

lemma shaped_artist:
  assumes "credits_ok (map_of kv ''artist-credit'')"
  shows "\<exists>a. credited_artist (JObj kv) = Inr a"
  using assms
proof (cases "map_of kv ''artist-credit''" rule: credits_ok.cases)
  case 1
  then show ?thesis by (simp add: credited_artist_none)
next
  case (2 c cs)
  then show ?thesis by (simp add: credited_artist_first)
qed (use assms in simp_all)

lemma shaped_length:
  assumes "length_ok (map_of kv ''length'')"
  shows "\<exists>ms. py_int w (case map_of kv ''length'' of None \<Rightarrow> JNum 0 | Some v \<Rightarrow> v) = Inr ms"
  using assms
  by (cases "map_of kv ''length''" rule: length_ok.cases) simp_all

lemma tag_ok_item: "tag_ok tag \<Longrightarrow> \<exists>n. py_item tag ''name'' = Inr n"
  by (cases tag) auto

lemma shaped_tags:
  assumes "tags_ok (map_of kv ''tags'')"
  shows "\<exists>names. tag_names (JObj kv) = Inr names"
  using assms
proof (cases "map_of kv ''tags''" rule: tags_ok.cases)
  case 1
  then show ?thesis by (simp add: tag_names_none)
next
  case (2 ts)
  then have "\<forall>tag \<in> set (take 3 ts). \<exists>n. py_item tag ''name'' = Inr n"
    using assms by (auto simp: list_all_iff dest: tag_ok_item)
  then obtain names where "collect (\<lambda>tag. py_item tag ''name'') (take 3 ts) = Inr names"
    using collect_all [of "take 3 ts" "\<lambda>tag. py_item tag ''name''"] by blast
  then show ?thesis using 2 by (simp add: tag_names_list)
qed (use assms in simp_all)

lemma shaped_format_track:
  assumes "recording_shaped kv"
  shows "\<exists>t. format_track w (JObj kv) = Inr t"
proof -
  have s: "map_of kv ''id'' \<noteq> None" "length_ok (map_of kv ''length'')"
    "credits_ok (map_of kv ''artist-credit'')" "releases_ok (map_of kv ''releases'')"
    "tags_ok (map_of kv ''tags'')"
    using assms by (simp_all add: recording_shaped_def)
  obtain album release_date where p: "release_info w (JObj kv) = Inr (album, release_date)"
    using shaped_release [OF s(4), of w] by auto
  obtain a where a: "credited_artist (JObj kv) = Inr a"
    using shaped_artist [OF s(3)] by blast
  obtain ms where ms: "py_int w (case map_of kv ''length'' of None \<Rightarrow> JNum 0 | Some v \<Rightarrow> v) = Inr ms"
    using shaped_length [OF s(2), of w] by blast
  obtain rid where rid: "map_of kv ''id'' = Some rid"
    using s(1) by blast
  obtain names where n: "tag_names (JObj kv) = Inr names"
    using shaped_tags [OF s(5)] by blast
  show ?thesis using p a ms rid n by (simp add: format_track_Inr_iff)
qed

lemma tag_names_length:
  assumes "tag_names (JObj kv) = Inr names"
  shows "length names \<le> 3"
proof -
  obtain first_tags tag_list where
    a: "py_slice (case map_of kv ''tags'' of None \<Rightarrow> JArr [] | Some v \<Rightarrow> v) 3 = Inr first_tags"
    and b: "py_iter first_tags = Inr tag_list"
    and c: "collect (\<lambda>tag. py_item tag ''name'') tag_list = Inr names"
    using assms by (auto simp: tag_names_def andthen_Inr_iff)
  have "length tag_list \<le> 3"
    using py_slice_shape [OF a] b by auto
  then show ?thesis using collect_length [OF c] by simp
qed

lemma format_track_fields:
  assumes "format_track w (JObj kv) = Inr t"
  shows "track_title t = (case map_of kv ''title'' of None \<Rightarrow> JStr ''Unknown Track'' | Some v \<Rightarrow> v)"
    and "map_of kv ''length'' = None \<Longrightarrow> track_duration t = 0"
    and "map_of kv ''length'' = Some (JNum n) \<Longrightarrow> track_duration t = n div 1000"
    and "map_of kv ''artist-credit'' = None \<Longrightarrow> track_artist t = JStr ''Unknown Artist''"
    and "map_of kv ''artist-credit'' = Some (JArr (JObj c # cs)) \<Longrightarrow>
           track_artist t = (case map_of c ''name'' of None \<Rightarrow> JStr ''Unknown Artist'' | Some v \<Rightarrow> v)"
    and "map_of kv ''releases'' = None \<or> (\<exists>v. map_of kv ''releases'' = Some v \<and> \<not> truthy v) \<Longrightarrow>
           track_album t = ''Unknown Album''"
    and "map_of kv ''releases'' = Some (JArr (JObj r # rs)) \<Longrightarrow>
           track_album t =
             py_str w (case map_of r ''title'' of None \<Rightarrow> JStr ''Unknown Album'' | Some a \<Rightarrow> a) @
             (case map_of r ''date'' of None \<Rightarrow> [] | Some d \<Rightarrow> '' ('' @ py_str w d @ '')'')"
    and "map_of kv ''tags'' = None \<Longrightarrow> track_tags t = []"
    and "map_of kv ''tags'' = Some (JArr ts) \<Longrightarrow>
           list_all2 (\<lambda>tag n. py_item tag ''name'' = Inr n) (take 3 ts) (track_tags t)"
    and "length (track_tags t) \<le> 3"
    and "\<exists>rid. map_of kv ''id'' = Some rid \<and>
           track_url t = ''https://musicbrainz.org/recording/'' @ py_str w rid"
proof -
  obtain album release_date artist ms rid names where
    p: "release_info w (JObj kv) = Inr (album, release_date)"
    and a: "credited_artist (JObj kv) = Inr artist"
    and m: "py_int w (case map_of kv ''length'' of None \<Rightarrow> JNum 0 | Some v \<Rightarrow> v) = Inr ms"
    and i: "map_of kv ''id'' = Some rid"
    and g: "tag_names (JObj kv) = Inr names"
    and t: "t = \<lparr>track_title = (case map_of kv ''title'' of None \<Rightarrow> JStr ''Unknown Track'' | Some v \<Rightarrow> v),
             track_artist = artist,
             track_album = py_str w album @ release_date,
             track_duration = ms div 1000,
             track_url = ''https://musicbrainz.org/recording/'' @ py_str w rid,
             track_tags = names\<rparr>"
    using assms unfolding format_track_Inr_iff by blast
  show "track_title t = (case map_of kv ''title'' of None \<Rightarrow> JStr ''Unknown Track'' | Some v \<Rightarrow> v)"
    by (simp add: t)
  show "track_duration t = 0" if "map_of kv ''length'' = None"
    using m that by (simp add: t)
  show "track_duration t = n div 1000" if "map_of kv ''length'' = Some (JNum n)"
    using m that by (simp add: t)
  show "track_artist t = JStr ''Unknown Artist''" if "map_of kv ''artist-credit'' = None"
    using a credited_artist_none [OF that] by (simp add: t)
  show "track_artist t = (case map_of c ''name'' of None \<Rightarrow> JStr ''Unknown Artist'' | Some v \<Rightarrow> v)"
    if "map_of kv ''artist-credit'' = Some (JArr (JObj c # cs))"
    using a credited_artist_first [OF that] by (simp add: t)
  show "track_album t = ''Unknown Album''"
    if "map_of kv ''releases'' = None \<or> (\<exists>v. map_of kv ''releases'' = Some v \<and> \<not> truthy v)"
    using p release_info_none [OF that, of w] by (auto simp: t py_str_def)
  show "track_album t =
             py_str w (case map_of r ''title'' of None \<Rightarrow> JStr ''Unknown Album'' | Some a \<Rightarrow> a) @
             (case map_of r ''date'' of None \<Rightarrow> [] | Some d \<Rightarrow> '' ('' @ py_str w d @ '')'')"
    if "map_of kv ''releases'' = Some (JArr (JObj r # rs))"
    using p release_info_first [OF that, of w] by (simp add: t)
  show "track_tags t = []" if "map_of kv ''tags'' = None"
    using g tag_names_none [OF that] by (simp add: t)
  show "list_all2 (\<lambda>tag n. py_item tag ''name'' = Inr n) (take 3 ts) (track_tags t)"
    if "map_of kv ''tags'' = Some (JArr ts)"
    using g tag_names_list [OF that] by (simp add: t collect_Inr_iff)
  show "length (track_tags t) \<le> 3"
    using tag_names_length [OF g] by (simp add: t)
  show "\<exists>rid. map_of kv ''id'' = Some rid \<and>
           track_url t = ''https://musicbrainz.org/recording/'' @ py_str w rid"
    using i by (simp add: t)
qed

lemma format_track_no_id: "map_of kv ''id'' = None \<Longrightarrow> \<exists>e. format_track w (JObj kv) = Inl e"
proof (cases "format_track w (JObj kv)")
  case (Inl e)
  then show ?thesis by blast
next
  case (Inr t)
  assume "map_of kv ''id'' = None"
  then show ?thesis using format_track_fields(11) [OF Inr] by simp
qed

lemma search_track_of_try:
  "fst (search_track w artist title self) =
     (case search_track_try w artist title of Inl e \<Rightarrow> Inr None | Inr r \<Rightarrow> Inr r)"
  by (simp add: search_track_def Let_def)



lemma search_track_try_first:
  assumes "session_get w (search_request artist title) = Inr r" "status r = 200"
    "json_body r = Inr (JObj body)" "map_of body ''recordings'' = Some (JArr (recording # rest))"
  shows "search_track_try w artist title =
           andthen (format_track w recording) (\<lambda>t. Inr (Some t))"
  using assms by (simp add: search_track_try_def andthen_Inr)


lemma session_get_search_fixed:
  "session_get (fixed_world outcome) (search_request artist title) = outcome"
  by (simp add: session_get_def search_request_def fixed_world_def)



subsection \<open>Missing fields\<close>

lemma get_recommendations_entry_fails:
  assumes "session_get w (mood_request w tag) = Inr r" "status r = 200"
    "json_body r = Inr (JObj kv)" "map_of kv ''tracks'' = Some (JObj tkv)"
    "map_of tkv ''track'' = Some (JArr xs)"
    "x \<in> set xs" "py_item x ''name'' = Inl e"
  shows "fst (get_recommendations w tag self) = Inr []"
proof -
  obtain e' where "collect (\<lambda>track. py_item track ''name'') xs = Inl e'"
    using collect_fails [OF assms(6), of "\<lambda>track. py_item track ''name''", OF assms(7)] by blast
  then show ?thesis
    using get_recommendations_try_eq [OF assms(1-5)] by (simp add: get_recommendations_of_try)
qed

lemma get_mood_songs_entry_fails:
  assumes "session_get w (mood_request w tag) = Inr r" "status r = 200"
    "json_body r = Inr (JObj kv)" "map_of kv ''tracks'' = Some (JObj tkv)"
    "map_of tkv ''track'' = Some (JArr xs)"
    "x \<in> set xs" "mood_song w x = Inl e"
  shows "fst (get_mood_songs w tag self) = Inr []"
proof -
  obtain e' where "collect (mood_song w) xs = Inl e'"
    using collect_fails [OF assms(6), of "mood_song w", OF assms(7)] by blast
  then show ?thesis
    using get_mood_songs_try_eq [OF assms(1-5)] by (simp add: get_mood_songs_of_try)
qed

lemma mood_song_incomplete:
  "map_of ekv ''name'' = None \<or> map_of ekv ''artist'' = None \<Longrightarrow>
     mood_song w (JObj ekv) = Inl KeyError"
  by (auto simp: mood_song_def andthen_def split: option.splits)

lemma tag_adapters_missing_list:
  assumes "session_get w (mood_request w tag) = Inr r" "status r = 200"
    "json_body r = Inr (JObj kv)"
    "map_of kv ''tracks'' = None \<or>
     (\<exists>tkv. map_of kv ''tracks'' = Some (JObj tkv) \<and> map_of tkv ''track'' = None)"
  shows "fst (get_recommendations w tag self) = Inr []"
    and "fst (get_mood_songs w tag self) = Inr []"
  using assms
  by (auto simp: get_recommendations_of_try get_recommendations_try_def same_request
      get_mood_songs_of_try get_mood_songs_try_def andthen_Inr)

text \<open>
  C8 (as amended). For a response with status 200 whose JSON lacks fields: a field
  that is read with a default takes the default and the adapter still returns its
  result (a recording without title, artist credit, credit name, release, release
  title and date, length or tags gives a record with \<open>"Unknown Track"\<close>,
  \<open>"Unknown Artist"\<close>, \<open>"Unknown Album"\<close>, the duration 0 and no tags; a body without
  \<open>tracks\<close>, \<open>track\<close> or \<open>data\<close> gives the empty list). A field that is read without a
  default turns the response into the outcome for no data, with no exception: a
  recording without \<open>id\<close> gives \<open>None\<close>, and a track list with an entry that lacks its
  \<open>name\<close> (for the mood adapter, its \<open>name\<close> or its \<open>artist\<close>) gives the empty list.
\<close>

theorem missing_fields_outcomes:
  "(session_get w (search_request artist title) = Inr r \<and> status r = 200 \<and>
      json_body r = Inr (JObj body) \<and>
      map_of body ''recordings'' = Some (JArr (JObj kv # rest)) \<and> recording_shaped kv \<longrightarrow>
        (\<exists>t. fst (search_track w artist title self) = Inr (Some t) \<and>
           (map_of kv ''title'' = None \<longrightarrow> track_title t = JStr ''Unknown Track'') \<and>
           (map_of kv ''artist-credit'' = None \<longrightarrow> track_artist t = JStr ''Unknown Artist'') \<and>
           (\<forall>c cs. map_of kv ''artist-credit'' = Some (JArr (JObj c # cs)) \<and>
                   map_of c ''name'' = None \<longrightarrow> track_artist t = JStr ''Unknown Artist'') \<and>
           (map_of kv ''releases'' = None \<longrightarrow> track_album t = ''Unknown Album'') \<and>
           (\<forall>rel rels. map_of kv ''releases'' = Some (JArr (JObj rel # rels)) \<and>
                   map_of rel ''title'' = None \<and> map_of rel ''date'' = None \<longrightarrow>
                   track_album t = ''Unknown Album'') \<and>
           (map_of kv ''length'' = None \<longrightarrow> track_duration t = 0) \<and>
           (map_of kv ''tags'' = None \<longrightarrow> track_tags t = []))) \<and>
   (session_get w (search_request artist title) = Inr r \<and> status r = 200 \<and>
      json_body r = Inr (JObj body) \<and>
      map_of body ''recordings'' = Some (JArr (JObj kv # rest)) \<and> map_of kv ''id'' = None \<longrightarrow>
        fst (search_track w artist title self) = Inr None) \<and>
   (session_get w (mood_request w tag) = Inr r' \<and> status r' = 200 \<and>
      json_body r' = Inr (JObj tbody) \<and> map_of tbody ''tracks'' = Some (JObj tkv) \<and>
      map_of tkv ''track'' = Some (JArr xs) \<longrightarrow>
        ((\<exists>ekv. JObj ekv \<in> set xs \<and> map_of ekv ''name'' = None) \<longrightarrow>
           fst (get_recommendations w tag self) = Inr [] \<and>
           fst (get_mood_songs w tag self) = Inr []) \<and>
        ((\<exists>ekv. JObj ekv \<in> set xs \<and> map_of ekv ''artist'' = None) \<longrightarrow>
           fst (get_mood_songs w tag self) = Inr [])) \<and>
   (session_get w (mood_request w tag) = Inr r' \<and> status r' = 200 \<and>
      json_body r' = Inr (JObj tbody) \<and>
      (map_of tbody ''tracks'' = None \<or>
       (\<exists>tkv. map_of tbody ''tracks'' = Some (JObj tkv) \<and> map_of tkv ''track'' = None)) \<longrightarrow>
        fst (get_recommendations w tag self) = Inr [] \<and>
        fst (get_mood_songs w tag self) = Inr []) \<and>
   (session_get w trending_request = Inr r'' \<and> status r'' = 200 \<and>
      json_body r'' = Inr (JObj charts) \<and>
      (map_of charts ''tracks'' = None \<or>
       (\<exists>tkv. map_of charts ''tracks'' = Some (JObj tkv) \<and> map_of tkv ''data'' = None)) \<longrightarrow>
        fst (get_trending w self) = Inr (JArr []))"
proof (intro conjI impI)
  assume h: "session_get w (search_request artist title) = Inr r \<and> status r = 200 \<and>
      json_body r = Inr (JObj body) \<and>
      map_of body ''recordings'' = Some (JArr (JObj kv # rest)) \<and> recording_shaped kv"
  then obtain t where t: "format_track w (JObj kv) = Inr t"
    using shaped_format_track [of kv w] by blast
  have "search_track_try w artist title = andthen (format_track w (JObj kv)) (\<lambda>t. Inr (Some t))"
    using h by (intro search_track_try_first [of w artist title r body _ rest]) simp_all
  then have s: "fst (search_track w artist title self) = Inr (Some t)"
    using t by (simp add: search_track_of_try andthen_Inr)
  note f = format_track_fields [OF t]
  show "\<exists>t. fst (search_track w artist title self) = Inr (Some t) \<and>
           (map_of kv ''title'' = None \<longrightarrow> track_title t = JStr ''Unknown Track'') \<and>
           (map_of kv ''artist-credit'' = None \<longrightarrow> track_artist t = JStr ''Unknown Artist'') \<and>
           (\<forall>c cs. map_of kv ''artist-credit'' = Some (JArr (JObj c # cs)) \<and>
                   map_of c ''name'' = None \<longrightarrow> track_artist t = JStr ''Unknown Artist'') \<and>
           (map_of kv ''releases'' = None \<longrightarrow> track_album t = ''Unknown Album'') \<and>
           (\<forall>rel rels. map_of kv ''releases'' = Some (JArr (JObj rel # rels)) \<and>
                   map_of rel ''title'' = None \<and> map_of rel ''date'' = None \<longrightarrow>
                   track_album t = ''Unknown Album'') \<and>
           (map_of kv ''length'' = None \<longrightarrow> track_duration t = 0) \<and>
           (map_of kv ''tags'' = None \<longrightarrow> track_tags t = [])"
  proof (intro exI [of _ t] conjI allI impI)
    show "fst (search_track w artist title self) = Inr (Some t)" by (rule s)
    show "track_title t = JStr ''Unknown Track''" if "map_of kv ''title'' = None"
      using f(1) that by simp
    show "track_artist t = JStr ''Unknown Artist''" if "map_of kv ''artist-credit'' = None"
      using f(4) that by simp
    show "track_artist t = JStr ''Unknown Artist''"
      if "map_of kv ''artist-credit'' = Some (JArr (JObj c # cs)) \<and> map_of c ''name'' = None"
      for c cs
      using f(5) [of c cs] that by simp
    show "track_album t = ''Unknown Album''" if "map_of kv ''releases'' = None"
      using f(6) that by simp
    show "track_album t = ''Unknown Album''"
      if "map_of kv ''releases'' = Some (JArr (JObj rel # rels)) \<and>
          map_of rel ''title'' = None \<and> map_of rel ''date'' = None" for rel rels
      using f(7) [of rel rels] that by (simp add: py_str_def)
    show "track_duration t = 0" if "map_of kv ''length'' = None"
      using f(2) that by simp
    show "track_tags t = []" if "map_of kv ''tags'' = None"
      using f(8) that by simp
  qed
next
  assume h: "session_get w (search_request artist title) = Inr r \<and> status r = 200 \<and>
      json_body r = Inr (JObj body) \<and>
      map_of body ''recordings'' = Some (JArr (JObj kv # rest)) \<and> map_of kv ''id'' = None"
  then obtain e where "format_track w (JObj kv) = Inl e"
    using format_track_no_id [of kv w] by blast
  moreover have "search_track_try w artist title =
      andthen (format_track w (JObj kv)) (\<lambda>t. Inr (Some t))"
    using h by (intro search_track_try_first [of w artist title r body _ rest]) simp_all
  ultimately show "fst (search_track w artist title self) = Inr None"
    by (simp add: search_track_of_try andthen_Inl)
next
  assume h: "session_get w (mood_request w tag) = Inr r' \<and> status r' = 200 \<and>
      json_body r' = Inr (JObj tbody) \<and> map_of tbody ''tracks'' = Some (JObj tkv) \<and>
      map_of tkv ''track'' = Some (JArr xs)"
  assume "\<exists>ekv. JObj ekv \<in> set xs \<and> map_of ekv ''name'' = None"
  then obtain ekv where e: "JObj ekv \<in> set xs" "map_of ekv ''name'' = None" by blast
  have i: "py_item (JObj ekv) ''name'' = Inl KeyError" using e(2) by simp
  have m: "mood_song w (JObj ekv) = Inl KeyError" using e(2) by (simp add: mood_song_incomplete)
  from h have g: "session_get w (mood_request w tag) = Inr r'" "status r' = 200"
    "json_body r' = Inr (JObj tbody)" "map_of tbody ''tracks'' = Some (JObj tkv)"
    "map_of tkv ''track'' = Some (JArr xs)" by simp_all
  show "fst (get_recommendations w tag self) = Inr []"
    by (rule get_recommendations_entry_fails [OF g e(1) i])
  show "fst (get_mood_songs w tag self) = Inr []"
    by (rule get_mood_songs_entry_fails [OF g e(1) m])
next
  assume h: "session_get w (mood_request w tag) = Inr r' \<and> status r' = 200 \<and>
      json_body r' = Inr (JObj tbody) \<and> map_of tbody ''tracks'' = Some (JObj tkv) \<and>
      map_of tkv ''track'' = Some (JArr xs)"
  assume "\<exists>ekv. JObj ekv \<in> set xs \<and> map_of ekv ''artist'' = None"
  then obtain ekv where e: "JObj ekv \<in> set xs" "map_of ekv ''artist'' = None" by blast
  have m: "mood_song w (JObj ekv) = Inl KeyError" using e(2) by (simp add: mood_song_incomplete)
  from h have g: "session_get w (mood_request w tag) = Inr r'" "status r' = 200"
    "json_body r' = Inr (JObj tbody)" "map_of tbody ''tracks'' = Some (JObj tkv)"
    "map_of tkv ''track'' = Some (JArr xs)" by simp_all
  show "fst (get_mood_songs w tag self) = Inr []"
    by (rule get_mood_songs_entry_fails [OF g e(1) m])
next
  assume h: "session_get w (mood_request w tag) = Inr r' \<and> status r' = 200 \<and>
      json_body r' = Inr (JObj tbody) \<and>
      (map_of tbody ''tracks'' = None \<or>
       (\<exists>tkv. map_of tbody ''tracks'' = Some (JObj tkv) \<and> map_of tkv ''track'' = None))"
  show "fst (get_recommendations w tag self) = Inr []"
    using h by (intro tag_adapters_missing_list(1) [of w tag r' tbody]) simp_all
  show "fst (get_mood_songs w tag self) = Inr []"
    using h by (intro tag_adapters_missing_list(2) [of w tag r' tbody]) simp_all
next
  assume "session_get w trending_request = Inr r'' \<and> status r'' = 200 \<and>
      json_body r'' = Inr (JObj charts) \<and>
      (map_of charts ''tracks'' = None \<or>
       (\<exists>tkv. map_of charts ''tracks'' = Some (JObj tkv) \<and> map_of tkv ''data'' = None))"
  then show "fst (get_trending w self) = Inr (JArr [])"
    by (intro get_trending_missing [of w r'' charts]) simp_all
qed

text \<open>The theorem at a recording that has only an \<open>id\<close>, at a track list with an entry
  that has no \<open>name\<close>, and at a chart without \<open>data\<close>.\<close>

theorem missing_fields_witness:
  "recording_shaped [(''id'', JStr ''x1'')] \<and>
   fst (search_track (fixed_world (ok (JObj [(''recordings'', JArr [JObj [(''id'', JStr ''x1'')]])])))
          ''Adele'' ''Hello'' init_api) =
     Inr (Some \<lparr>track_title = JStr ''Unknown Track'', track_artist = JStr ''Unknown Artist'',
                 track_album = ''Unknown Album'', track_duration = 0,
                 track_url = ''https://musicbrainz.org/recording/x1'', track_tags = []\<rparr>) \<and>
   fst (get_recommendations (fixed_world (ok (top_tracks [song ''A'' ''X'', JObj [(''mbid'', JStr ''m'')]])))
          ''rock'' init_api) = Inr [] \<and>
   fst (get_trending (fixed_world (ok (JObj [(''tracks'', JObj [(''total'', JNum 0)])]))) init_api) =
     Inr (JArr [])"
proof -
  let ?kv = "[(''id'', JStr ''x1'')]"
  let ?b = "[(''recordings'', JArr [JObj ?kv])]"
  let ?w = "fixed_world (ok (JObj ?b))"
  let ?r = "\<lparr>status = 200, json_body = Inr (JObj ?b)\<rparr>"
  let ?xs = "[song ''A'' ''X'', JObj [(''mbid'', JStr ''m'')]]"
  let ?tw = "fixed_world (ok (top_tracks ?xs))"
  let ?tr = "\<lparr>status = 200, json_body = Inr (top_tracks ?xs)\<rparr>"
  let ?c = "[(''tracks'', JObj [(''total'', JNum 0)])]"
  let ?cw = "fixed_world (ok (JObj ?c))"
  let ?cr = "\<lparr>status = 200, json_body = Inr (JObj ?c)\<rparr>"
  have s: "recording_shaped ?kv" by (simp add: recording_shaped_def)
  have g: "session_get ?w (search_request ''Adele'' ''Hello'') = Inr ?r \<and> status ?r = 200 \<and>
      json_body ?r = Inr (JObj ?b) \<and> map_of ?b ''recordings'' = Some (JArr (JObj ?kv # []))"
    by (simp add: session_get_search_fixed ok_def)
  have "\<exists>t. fst (search_track ?w ''Adele'' ''Hello'' init_api) = Inr (Some t) \<and>
          track_title t = JStr ''Unknown Track'' \<and> track_artist t = JStr ''Unknown Artist'' \<and>
          track_album t = ''Unknown Album'' \<and> track_duration t = 0 \<and> track_tags t = []"
    using missing_fields_outcomes [where w = ?w and artist = "''Adele''" and title = "''Hello''"
        and r = ?r and body = ?b and kv = ?kv and rest = "[]" and self = init_api] g s
    by simp
  then obtain t where t: "fst (search_track ?w ''Adele'' ''Hello'' init_api) = Inr (Some t)"
    "track_title t = JStr ''Unknown Track''" "track_artist t = JStr ''Unknown Artist''"
    "track_album t = ''Unknown Album''" "track_duration t = 0" "track_tags t = []"
    by blast
  have u: "fst (search_track ?w ''Adele'' ''Hello'' init_api) =
      Inr (Some \<lparr>track_title = JStr ''Unknown Track'', track_artist = JStr ''Unknown Artist'',
                 track_album = ''Unknown Album'', track_duration = 0,
                 track_url = ''https://musicbrainz.org/recording/x1'', track_tags = []\<rparr>)"
    by (simp add: search_track_of_try search_track_try_def session_get_search_fixed ok_def
        format_track_def release_info_def credited_artist_def tag_names_def andthen_def py_str_def)
  have tg: "session_get ?tw (mood_request ?tw ''rock'') = Inr ?tr \<and> status ?tr = 200 \<and>
      json_body ?tr = Inr (JObj [(''tracks'', JObj [(''track'', JArr ?xs)])]) \<and>
      map_of [(''tracks'', JObj [(''track'', JArr ?xs)])] ''tracks'' = Some (JObj [(''track'', JArr ?xs)]) \<and>
      map_of [(''track'', JArr ?xs)] ''track'' = Some (JArr ?xs)"
    by (simp add: session_get_mood_fixed ok_def top_tracks_def)
  have te: "\<exists>ekv. JObj ekv \<in> set ?xs \<and> map_of ekv ''name'' = None"
    by (intro exI [of _ "[(''mbid'', JStr ''m'')]"]) simp
  have a: "fst (get_recommendations ?tw ''rock'' init_api) = Inr []"
    using missing_fields_outcomes [where w = ?tw and tag = "''rock''" and r' = ?tr
        and tbody = "[(''tracks'', JObj [(''track'', JArr ?xs)])]"
        and tkv = "[(''track'', JArr ?xs)]" and xs = ?xs and self = init_api] tg te
    by blast
  have cg: "session_get ?cw trending_request = Inr ?cr \<and> status ?cr = 200 \<and>
      json_body ?cr = Inr (JObj ?c) \<and>
      (map_of ?c ''tracks'' = None \<or>
       (\<exists>tkv. map_of ?c ''tracks'' = Some (JObj tkv) \<and> map_of tkv ''data'' = None))"
    by (simp add: session_get_trending_fixed ok_def)
  have b: "fst (get_trending ?cw init_api) = Inr (JArr [])"
    using missing_fields_outcomes [where w = ?cw and r'' = ?cr and charts = ?c and self = init_api] cg
    by blast
  show ?thesis using s u a b t by simp
qed

text \<open>
  The claim as first stated has a list with one incomplete entry still yield the
  well-formed entries. It does not: the first entry alone gives \<open>A - X\<close>, and the list
  with a second entry that lacks its \<open>artist\<close> gives the empty list.
\<close>

theorem incomplete_entry_counterexample:
  "mood_song (fixed_world (ok (top_tracks [song ''A'' ''X'', JObj [(''name'', JStr ''B'')]])))
     (song ''A'' ''X'') = Inr ''A - X'' \<and>
   fst (get_mood_songs (fixed_world (ok (top_tracks [song ''A'' ''X'', JObj [(''name'', JStr ''B'')]])))
          ''happy'' init_api) = Inr []"
  by (simp add: get_mood_songs_of_try get_mood_songs_try_def session_get_mood_fixed ok_def
      top_tracks_def song_def mood_song_def andthen_def py_str_def)

section \<open>The session across the adapter calls\<close>

lemma adapters_session:
  "snd (fetch_json w req self) = create_session self"
  "snd (get_lyrics w artist title self) = create_session self"
  "snd (search_track w artist title self) = create_session self"
  "snd (get_trending w self) = create_session self"
  "snd (get_recommendations w tag self) = create_session self"
  "snd (get_mood_songs w tag self) = create_session self"
proof -
  show f: "snd (fetch_json w req self) = create_session self" for req
    by (simp add: fetch_json_def Let_def)
  show "snd (get_lyrics w artist title self) = create_session self"
    using f [of "lyrics_request artist title"]
    by (cases "fetch_json w (lyrics_request artist title) self")
       (auto simp: get_lyrics_def split: sum.splits)
  show "snd (search_track w artist title self) = create_session self"
    by (simp add: search_track_def Let_def)
  show "snd (get_trending w self) = create_session self"
    by (simp add: get_trending_def Let_def)
  show "snd (get_recommendations w tag self) = create_session self"
    by (simp add: get_recommendations_def Let_def)
  show "snd (get_mood_songs w tag self) = create_session self"
    by (simp add: get_mood_songs_def Let_def)
qed

text \<open>
  C9. Two calls of \<open>create_session\<close> in a row allocate one pool at most, and exactly
  one from a state with no open session: the second call changes nothing.
  \<open>close_session\<close> on a session that is closed or was never opened changes nothing.
  After a close, the next \<open>create_session\<close> allocates a new pool, and every adapter
  operation, which starts with \<open>create_session\<close>, leaves the session open. In every state reached
  from the initial one by calls of the two operations, at most one pool is live.
\<close>

theorem session_manager_one_pool:
  "create_session (create_session self) = create_session self \<and>
   allocated (create_session (create_session self)) =
     (if is_open self then allocated self else Suc (allocated self)) \<and>
   (\<not> is_open self \<longrightarrow> close_session self = self) \<and>
   close_session init_api = init_api \<and>
   close_session (close_session self) = close_session self \<and>
   is_open (create_session (close_session self)) \<and>
   allocated (create_session (close_session self)) = Suc (allocated self) \<and>
   is_open (snd (fetch_json w req (close_session self))) \<and>
   is_open (snd (get_lyrics w artist title (close_session self))) \<and>
   is_open (snd (search_track w artist title (close_session self))) \<and>
   is_open (snd (get_trending w (close_session self))) \<and>
   is_open (snd (get_recommendations w tag (close_session self))) \<and>
   is_open (snd (get_mood_songs w tag (close_session self))) \<and>
   finite (live (run_ops ops init_api)) \<and> card (live (run_ops ops init_api)) \<le> 1"
proof (intro conjI impI)
  show "is_open (snd (fetch_json w req (close_session self)))"
    "is_open (snd (get_lyrics w artist title (close_session self)))"
    "is_open (snd (search_track w artist title (close_session self)))"
    "is_open (snd (get_trending w (close_session self)))"
    "is_open (snd (get_recommendations w tag (close_session self)))"
    "is_open (snd (get_mood_songs w tag (close_session self)))"
    by (simp_all only: adapters_session create_session_open)
  show "create_session (create_session self) = create_session self"
    by (rule create_session_idem)
  show "allocated (create_session (create_session self)) =
     (if is_open self then allocated self else Suc (allocated self))"
    by (simp only: create_session_idem create_session_allocated)
  show "close_session self = self" if "\<not> is_open self"
    using that by (rule close_session_noop)
  show "close_session init_api = init_api"
    by (simp add: close_session_def init_api_def)
  show "close_session (close_session self) = close_session self"
    using close_session_closed [of self] by (rule close_session_noop)
  show "is_open (create_session (close_session self))"
    by (rule create_session_open)
  show "allocated (create_session (close_session self)) = Suc (allocated self)"
    by (simp only: create_after_close_allocates close_session_allocated)
  have "one_pool (run_ops ops init_api)"
    using one_pool_init by (rule one_pool_run_ops)
  then show "finite (live (run_ops ops init_api))" "card (live (run_ops ops init_api)) \<le> 1"
    using one_pool_card by blast+
qed

text \<open>The theorem at the initial state and at a run that opens, closes and opens again.\<close>

theorem session_manager_witness:
  "\<not> is_open init_api \<and> close_session init_api = init_api \<and>
   allocated (create_session (create_session init_api)) = 1 \<and>
   live (run_ops [EnsureOpen, Close, EnsureOpen, EnsureOpen] init_api) = {1} \<and>
   allocated (run_ops [EnsureOpen, Close, EnsureOpen, EnsureOpen] init_api) = 2"
proof -
  have a: "\<not> is_open init_api" by (simp add: is_open_def init_api_def)
  have b: "close_session init_api = init_api"
    using session_manager_one_pool [where self = init_api] a by blast
  have "allocated (create_session (create_session init_api)) =
          (if is_open init_api then allocated init_api else Suc (allocated init_api))"
    using session_manager_one_pool [where self = init_api] by blast
  then have c: "allocated (create_session (create_session init_api)) = 1"
    using a by (simp add: init_api_def)
  have d: "live (run_ops [EnsureOpen, Close, EnsureOpen, EnsureOpen] init_api) = {1}"
    by (simp add: init_api_def create_session_def close_session_def is_open_def session_closed_def)
  have e: "allocated (run_ops [EnsureOpen, Close, EnsureOpen, EnsureOpen] init_api) = 2"
    by (simp add: init_api_def create_session_def close_session_def is_open_def session_closed_def)
  show ?thesis using a b c d e by simp
qed

end
